theory Spec2Isabelle
  imports Main
begin

section \<open>JavaScript values used by the roster code\<close>

text \<open>
  Strings are lists of 8-bit characters, read as Latin-1 code units. The white space of
  \<^verbatim>\<open>String.prototype.trim\<close> and of the regular expression class \<^verbatim>\<open>\s\<close> in that range is
  tab, line feed, vertical tab, form feed, carriage return, space and no-break space.
\<close>

definition is_space :: "char \<Rightarrow> bool" where
  "is_space c =
     (c \<in> set [CHR 0x09, CHR 0x0A, CHR 0x0B, CHR 0x0C, CHR 0x0D, CHR 0x20, CHR 0xA0])"

definition trim :: "string \<Rightarrow> string" where
  "trim s = rev (dropWhile is_space (rev (dropWhile is_space s)))"

text \<open>\<^verbatim>\<open>s.replace(/\s+/g, '_')\<close>: every maximal run of white space becomes one underscore.\<close>

function replace_ws :: "string \<Rightarrow> string" where
  "replace_ws [] = []"
| "replace_ws (c # cs) =
     (if is_space c then CHR ''_'' # replace_ws (dropWhile is_space cs)
      else c # replace_ws cs)"
  by pat_completeness auto
termination
  by (relation "measure length") (auto simp: less_Suc_eq_le length_dropWhile_le)

text \<open>
  \<^verbatim>\<open>toLowerCase\<close> on Latin-1: the letters A to Z and the accented capitals 0xC0 to 0xDE
  (the multiplication sign 0xD7 apart) move up by 32.
\<close>

definition to_lower_char :: "char \<Rightarrow> char" where
  "to_lower_char c =
     (let n = (of_char c :: nat) in
      if (65 \<le> n \<and> n \<le> 90) \<or> (192 \<le> n \<and> n \<le> 222 \<and> n \<noteq> 215)
      then char_of (n + 32) else c)"

definition toLowerCase :: "string \<Rightarrow> string" where
  "toLowerCase s = map to_lower_char s"

text \<open>The decimal text of an index inside a template literal.\<close>

function show_nat :: "nat \<Rightarrow> string" where
  "show_nat n =
     (if n < 10 then [''0123456789'' ! n]
      else show_nat (n div 10) @ [''0123456789'' ! (n mod 10)])"
  by pat_completeness auto
termination
  by (relation "measure (\<lambda>n. n)") auto

definition show_int :: "int \<Rightarrow> string" where
  "show_int i = (if i < 0 then CHR ''-'' # show_nat (nat (- i)) else show_nat (nat i))"

text \<open>\<^verbatim>\<open>a || b\<close> on strings: the empty string is falsy.\<close>

definition or_else :: "string \<Rightarrow> string \<Rightarrow> string" where
  "or_else a b = (if a \<noteq> [] then a else b)"

text \<open>\<^verbatim>\<open>(row[i] || '')\<close>: reading past the end of an array gives undefined, hence the empty string.\<close>

definition cell :: "string list \<Rightarrow> nat \<Rightarrow> string" where
  "cell row i = (if i < length row then row ! i else [])"

text \<open>\<^verbatim>\<open>xs.map((x, index) => f(x, index))\<close>, the index starting at \<open>i\<close>.\<close>

fun map_index :: "('a \<Rightarrow> nat \<Rightarrow> 'b) \<Rightarrow> nat \<Rightarrow> 'a list \<Rightarrow> 'b list" where
  "map_index f i [] = []"
| "map_index f i (x # xs) = f x i # map_index f (Suc i) xs"

text \<open>
  An identifier is a string (synthesized ids, ids of the JSON rows) or a number (the
  database's serial key); \<^verbatim>\<open>===\<close> on two of them is equality of these values.
\<close>

datatype jsid = IdStr string | IdNum int

text \<open>
  The property key an identifier turns into in \<^verbatim>\<open>checkinData[attendee.id]\<close>. A number
  is an integer printed in decimal; the exponent form that JavaScript prints from 1e21
  on, and numbers that are not integers, are outside the model.
\<close>

fun key_of :: "jsid option \<Rightarrow> string" where
  "key_of None = ''undefined''"
| "key_of (Some (IdStr s)) = s"
| "key_of (Some (IdNum n)) = show_int n"

section \<open>The attendee record\<close>

text \<open>
  One record type for the objects the normalizers build. A field that some normalizer
  leaves out is an option: \<open>None\<close> stands for an absent field, and for \<^verbatim>\<open>null\<close> in
  \<open>checkedInAt\<close> and \<open>rowIndex\<close>.
\<close>

record attendee =
  attendee_id :: "jsid option"
  tableNumber :: string
  groupName :: string
  attendeeName :: string
  ticketType :: string
  email :: "string option"
  additionalInfo :: "string option"
  status :: string
  checkedInAt :: "string option"
  rowIndex :: "int option"

section \<open>Normalizers\<close>

subsection \<open>GoogleSheetsDataSource.normalizeAttendeeData (data-sources.js)\<close>

text \<open>
  The injected email validator: \<^verbatim>\<open>window.EmailValidator.validate\<close> returns whether the
  address is valid and its sanitized form; \<open>None\<close> when the validator is not loaded.
\<close>

type_synonym validator = "string \<Rightarrow> bool \<times> string"

definition gsheet_id :: "string \<Rightarrow> nat \<Rightarrow> string" where
  "gsheet_id fullName index =
     (if fullName \<noteq> []
      then ''gsheet_'' @ toLowerCase (replace_ws fullName) @ ''_'' @ show_nat index
      else ''gsheet_'' @ show_nat index)"

definition gsheet_row :: "validator option \<Rightarrow> string list \<Rightarrow> nat \<Rightarrow> attendee" where
  "gsheet_row ev row index =
     (let tableNumber = or_else (trim (cell row 0)) ''General'';
          groupName = trim (cell row 1);
          fullName = trim (cell row 2);
          ticketType = trim (cell row 3);
          email = trim (cell row 4);
          additionalInfo = trim (cell row 5);
          validatedEmail =
            (case ev of
               None \<Rightarrow> []
             | Some validate \<Rightarrow>
                 if email \<noteq> [] then
                   (case validate email of (valid, sanitized) \<Rightarrow>
                      if valid then sanitized else [])
                 else [])
      in \<lparr> attendee_id = Some (IdStr (gsheet_id fullName index)),
           tableNumber = tableNumber,
           groupName = or_else (or_else groupName ticketType) ''General'',
           attendeeName = fullName,
           ticketType = ticketType,
           email = Some validatedEmail,
           additionalInfo = Some additionalInfo,
           status = ''pending'',
           checkedInAt = None,
           rowIndex = Some (int index + 2) \<rparr>)"

definition gsheet_normalizeAttendeeData ::
  "validator option \<Rightarrow> string list list \<Rightarrow> attendee list" where
  "gsheet_normalizeAttendeeData ev data =
     filter (\<lambda>a. attendeeName a \<noteq> []) (map_index (gsheet_row ev) 0 data)"

subsection \<open>GoogleSheetsIntegration.normalizeAttendee and parseSheetRows (config.js)\<close>

text \<open>
  The object is built, the two fallbacks are applied to it, and the last line returns
  it when one of the three key fields is non-empty, \<^verbatim>\<open>null\<close> otherwise.
\<close>

definition normalizeAttendee :: "string list \<Rightarrow> int \<Rightarrow> attendee option" where
  "normalizeAttendee vals rowIdx =
     (let a0 = \<lparr> attendee_id = None,
                 tableNumber = trim (cell vals 0),
                 groupName = trim (cell vals 1),
                 attendeeName = trim (cell vals 2),
                 ticketType = trim (cell vals 3),
                 email = None,
                 additionalInfo = None,
                 status = ''pending'',
                 checkedInAt = None,
                 rowIndex = Some rowIdx \<rparr>;
          a1 = (if groupName a0 = [] \<and> ticketType a0 \<noteq> []
                then a0\<lparr>groupName := ticketType a0\<rparr> else a0);
          a2 = (if tableNumber a1 = [] then a1\<lparr>tableNumber := ''General''\<rparr> else a1)
      in if tableNumber a2 \<noteq> [] \<or> groupName a2 \<noteq> [] \<or> attendeeName a2 \<noteq> []
         then Some a2 else None)"

text \<open>
  \<^verbatim>\<open>rows.slice(1).filter(row => row && (row[0] || row[1] || row[2]))
      .map((row, index) => this.normalizeAttendee(row, index + 2)).filter(Boolean)\<close>
\<close>

definition parseSheetRows :: "string list list \<Rightarrow> attendee list" where
  "parseSheetRows rows =
     List.map_filter (\<lambda>x. x)
       (map_index (\<lambda>row index. normalizeAttendee row (int index + 2)) 0
          (filter (\<lambda>row. cell row 0 \<noteq> [] \<or> cell row 1 \<noteq> [] \<or> cell row 2 \<noteq> [])
             (drop 1 rows)))"

subsection \<open>CSVDataSource.normalizeAttendeeData (data-sources.js)\<close>

text \<open>
  A row of the JSON array the CSV endpoint answers: every field may be missing.
\<close>

record csv_row =
  r_id :: "jsid option"
  r_tableNumber :: "string option"
  r_groupName :: "string option"
  r_attendeeName :: "string option"
  r_ticketType :: "string option"
  r_email :: "string option"
  r_additionalInfo :: "string option"
  r_mealChoice :: "string option"
  r_status :: "string option"
  r_checkedInAt :: "string option"
  r_rowIndex :: "int option"

text \<open>\<^verbatim>\<open>x || d\<close> for a field that may be missing: undefined and the empty string are falsy.\<close>

definition str_or :: "string option \<Rightarrow> string \<Rightarrow> string" where
  "str_or x d = (case x of None \<Rightarrow> d | Some s \<Rightarrow> if s \<noteq> [] then s else d)"

fun truthy_id :: "jsid option \<Rightarrow> bool" where
  "truthy_id None = False"
| "truthy_id (Some (IdStr s)) = (s \<noteq> [])"
| "truthy_id (Some (IdNum n)) = (n \<noteq> 0)"

definition csv_record :: "csv_row \<Rightarrow> nat \<Rightarrow> attendee" where
  "csv_record r index =
     \<lparr> attendee_id = (if truthy_id (r_id r) then r_id r
                       else Some (IdStr (''csv_'' @ show_nat index))),
       tableNumber = str_or (r_tableNumber r) ''General'',
       groupName = str_or (r_groupName r) [],
       attendeeName = str_or (r_attendeeName r) [],
       ticketType = str_or (r_ticketType r) [],
       email = Some (str_or (r_email r) []),
       additionalInfo = Some (str_or (r_additionalInfo r) (str_or (r_mealChoice r) [])),
       status = str_or (r_status r) ''pending'',
       checkedInAt = (case r_checkedInAt r of None \<Rightarrow> None
                      | Some t \<Rightarrow> if t \<noteq> [] then Some t else None),
       rowIndex = (case r_rowIndex r of None \<Rightarrow> Some (int index + 2)
                   | Some n \<Rightarrow> if n \<noteq> 0 then Some n else Some (int index + 2)) \<rparr>"

definition csv_normalizeAttendeeData :: "csv_row list \<Rightarrow> attendee list" where
  "csv_normalizeAttendeeData data = map_index csv_record 0 data"

section \<open>GoogleSheetsDataSource.parseCsvData (data-sources.js)\<close>

text \<open>\<^verbatim>\<open>csvText.split('\n')\<close>: the pieces between line feeds, one more than there are line feeds.\<close>

fun split_lines :: "string \<Rightarrow> string list" where
  "split_lines [] = [[]]"
| "split_lines (c # cs) =
     (if c = CHR 0x0A then [] # split_lines cs
      else (case split_lines cs of
              [] \<Rightarrow> [[c]]
            | l # ls \<Rightarrow> (c # l) # ls))"

text \<open>
  The inner loop over the characters of a line: \<open>vals\<close> is the array \<^verbatim>\<open>values\<close>, \<open>cur\<close>
  is \<^verbatim>\<open>currentValue\<close>, \<open>inq\<close> is \<^verbatim>\<open>inQuotes\<close>. At the end of the line the last value is pushed.
\<close>

fun parse_chars :: "string \<Rightarrow> string list \<Rightarrow> string \<Rightarrow> bool \<Rightarrow> string list" where
  "parse_chars [] vals cur inq = vals @ [trim cur]"
| "parse_chars (c # cs) vals cur inq =
     (if c = CHR 0x22 then parse_chars cs vals cur (\<not> inq)
      else if c = CHR '','' \<and> \<not> inq then parse_chars cs (vals @ [trim cur]) [] inq
      else parse_chars cs vals (cur @ [c]) inq)"

definition parse_line :: "string \<Rightarrow> string list" where
  "parse_line line = parse_chars line [] [] False"

text \<open>
  The outer loop from the second line on: \<open>acc\<close> is the array \<^verbatim>\<open>data\<close>. A blank line is
  skipped; a parsed line is pushed when at least three of its values are non-empty.
\<close>

fun process_lines :: "string list \<Rightarrow> string list list \<Rightarrow> string list list" where
  "process_lines [] acc = acc"
| "process_lines (line # rest) acc =
     (if trim line = [] then process_lines rest acc
      else (let vals = parse_line line;
                nonEmptyValues = filter (\<lambda>v. v \<noteq> []) vals
            in if 3 \<le> length nonEmptyValues then process_lines rest (acc @ [vals])
               else process_lines rest acc))"

definition parseCsvData :: "string \<Rightarrow> string list list" where
  "parseCsvData csvText =
     (let lines = filter (\<lambda>line. trim line \<noteq> []) (split_lines csvText)
      in if length lines < 2 then [] else process_lines (drop 1 lines) [])"

subsection \<open>SupabaseDataSource.normalizeAttendeeData and the real-time record\<close>

text \<open>A row of the database table, as the client library hands it over.\<close>

record db_row =
  row_id :: "jsid option"
  table_number :: "string option"
  group_name :: "string option"
  attendee_name :: "string option"
  ticket_type :: "string option"
  row_email :: "string option"
  additional_info :: "string option"
  meal_choice :: "string option"
  row_status :: "string option"
  checked_in_at :: "string option"
  row_index :: "int option"

definition supabase_record :: "db_row \<Rightarrow> attendee" where
  "supabase_record row =
     \<lparr> attendee_id = row_id row,
       tableNumber = trim (str_or (table_number row) []),
       groupName = trim (str_or (group_name row) []),
       attendeeName = trim (str_or (attendee_name row) []),
       ticketType = trim (str_or (ticket_type row) []),
       email = Some (trim (str_or (row_email row) [])),
       additionalInfo =
         Some (trim (str_or (additional_info row) (str_or (meal_choice row) []))),
       status = str_or (row_status row) ''pending'',
       checkedInAt = checked_in_at row,
       rowIndex = row_index row \<rparr>"

definition supabase_normalizeAttendeeData :: "db_row list \<Rightarrow> attendee list" where
  "supabase_normalizeAttendeeData data = map supabase_record data"

text \<open>The object \<^verbatim>\<open>handleRealtimeUpdate\<close> builds from \<^verbatim>\<open>payload.new\<close>: no email, no additional info.\<close>

definition realtime_record :: "db_row \<Rightarrow> attendee" where
  "realtime_record newRecord =
     \<lparr> attendee_id = row_id newRecord,
       tableNumber = trim (str_or (table_number newRecord) []),
       groupName = trim (str_or (group_name newRecord) []),
       attendeeName = trim (str_or (attendee_name newRecord) []),
       ticketType = trim (str_or (ticket_type newRecord) []),
       email = None,
       additionalInfo = None,
       status = str_or (row_status newRecord) ''pending'',
       checkedInAt = checked_in_at newRecord,
       rowIndex = row_index newRecord \<rparr>"

section \<open>Requests and their outcomes\<close>

text \<open>
  A thrown value is an \<^verbatim>\<open>Error\<close> with its message. \<^verbatim>\<open>await fetch(...)\<close> either rejects
  (\<open>Inl\<close>) or gives a response; reading the body of a response (\<^verbatim>\<open>json()\<close>, \<^verbatim>\<open>text()\<close>)
  either rejects (\<open>Inl\<close>) or gives the parsed payload.
\<close>

datatype js_error = Error string

datatype 'b response =
  Response (ok: bool) (http_status: nat) (statusText: string) (body: "js_error + 'b")

type_synonym 'b fetched = "js_error + 'b response"

text \<open>
  The server-held check-in map: property key to status and time. The map holds the
  entries of the JSON object itself; the members every object inherits (a key such as
  "constructor") are outside the model.
\<close>

record checkin_entry =
  c_status :: string
  c_checkedInAt :: "string option"

type_synonym checkin_data = "string \<Rightarrow> checkin_entry option"

definition apply_checkins :: "checkin_data \<Rightarrow> attendee list \<Rightarrow> attendee list" where
  "apply_checkins checkinData normalizedData =
     map (\<lambda>a. case checkinData (key_of (attendee_id a)) of
                 Some c \<Rightarrow> a\<lparr>status := c_status c, checkedInAt := c_checkedInAt c\<rparr>
               | None \<Rightarrow> a)
         normalizedData"

text \<open>
  The inner \<^verbatim>\<open>try\<close> of both \<^verbatim>\<open>loadData\<close>: any failure of the second request is caught and
  logged, and the roster is returned without the overlay.
\<close>

definition load_checkins :: "checkin_data fetched \<Rightarrow> attendee list \<Rightarrow> attendee list" where
  "load_checkins checkinFetch normalizedData =
     (case checkinFetch of
        Inl checkinError \<Rightarrow> normalizedData
      | Inr checkinResponse \<Rightarrow>
          if ok checkinResponse then
            (case body checkinResponse of
               Inl checkinError \<Rightarrow> normalizedData
             | Inr checkinData \<Rightarrow> apply_checkins checkinData normalizedData)
          else normalizedData)"

text \<open>
  A request has failed when \<^verbatim>\<open>fetch\<close> rejected, when the response is not \<^verbatim>\<open>ok\<close>, or when
  its body could not be read.
\<close>

definition request_failed :: "'b fetched \<Rightarrow> bool" where
  "request_failed f =
     (case f of
        Inl e \<Rightarrow> True
      | Inr resp \<Rightarrow> (if ok resp then isl (body resp) else True))"

section \<open>CSVDataSource\<close>

definition csv_loadData_try ::
  "csv_row list fetched \<Rightarrow> checkin_data fetched \<Rightarrow> js_error + attendee list" where
  "csv_loadData_try dataFetch checkinFetch =
     (case dataFetch of
        Inl e \<Rightarrow> Inl e
      | Inr resp \<Rightarrow>
          if \<not> ok resp
          then Inl (Error (''HTTP '' @ show_nat (http_status resp) @ '': '' @ statusText resp))
          else (case body resp of
                  Inl e \<Rightarrow> Inl e
                | Inr data \<Rightarrow> Inr (load_checkins checkinFetch (csv_normalizeAttendeeData data))))"

text \<open>The outer \<^verbatim>\<open>catch\<close>: "Return empty array instead of throwing to prevent app crash".\<close>

definition csv_loadData ::
  "csv_row list fetched \<Rightarrow> checkin_data fetched \<Rightarrow> js_error + attendee list" where
  "csv_loadData dataFetch checkinFetch =
     (case csv_loadData_try dataFetch checkinFetch of
        Inl error \<Rightarrow> Inr []
      | Inr roster \<Rightarrow> Inr roster)"

text \<open>The body of the POST to the check-in endpoint, and the two fields of \<^verbatim>\<open>updates\<close>.\<close>

record updates =
  u_status :: string
  u_checkedInAt :: "string option"

record checkin_request =
  req_attendeeId :: jsid
  req_status :: string
  req_checkedInAt :: "string option"

text \<open>What \<^verbatim>\<open>updateAttendee\<close> resolves to: the server's JSON, or the literal \<^verbatim>\<open>{ success: true }\<close>.\<close>

datatype 'r update_result = ServerResult 'r | SuccessTrue

definition checkin_sync_try ::
  "(checkin_request \<Rightarrow> 'r fetched) \<Rightarrow> jsid \<Rightarrow> updates \<Rightarrow> js_error + 'r update_result" where
  "checkin_sync_try post attendeeId upd =
     (case post \<lparr> req_attendeeId = attendeeId, req_status = u_status upd,
                  req_checkedInAt = u_checkedInAt upd \<rparr> of
        Inl e \<Rightarrow> Inl e
      | Inr resp \<Rightarrow>
          if \<not> ok resp then Inl (Error (''Server error: '' @ show_nat (http_status resp)))
          else (case body resp of
                  Inl e \<Rightarrow> Inl e
                | Inr result \<Rightarrow> Inr (ServerResult result)))"

text \<open>The CSV adapter's \<^verbatim>\<open>catch\<close>: "Fallback to localStorage if server sync fails".\<close>

definition csv_updateAttendee ::
  "(checkin_request \<Rightarrow> 'r fetched) \<Rightarrow> jsid \<Rightarrow> updates \<Rightarrow> js_error + 'r update_result" where
  "csv_updateAttendee post attendeeId upd =
     (case checkin_sync_try post attendeeId upd of
        Inl error \<Rightarrow> Inr SuccessTrue
      | Inr result \<Rightarrow> Inr result)"

section \<open>GoogleSheetsDataSource\<close>

definition gsheet_loadData ::
  "validator option \<Rightarrow> string \<Rightarrow> string fetched \<Rightarrow> checkin_data fetched
     \<Rightarrow> js_error + attendee list" where
  "gsheet_loadData ev sheetUrl csvFetch checkinFetch =
     (if sheetUrl = [] then Inl (Error ''Google Sheets URL not configured'')
      else (case csvFetch of
              Inl error \<Rightarrow> Inl error
            | Inr resp \<Rightarrow>
                if \<not> ok resp
                then Inl (Error (''HTTP '' @ show_nat (http_status resp) @ '': ''
                                 @ statusText resp))
                else (case body resp of
                        Inl error \<Rightarrow> Inl error
                      | Inr csvText \<Rightarrow>
                          Inr (load_checkins checkinFetch
                                 (gsheet_normalizeAttendeeData ev (parseCsvData csvText))))))"

text \<open>The Google Sheets adapter's \<^verbatim>\<open>catch\<close> logs and throws the error again.\<close>

definition gsheet_updateAttendee ::
  "(checkin_request \<Rightarrow> 'r fetched) \<Rightarrow> jsid \<Rightarrow> updates \<Rightarrow> js_error + 'r update_result" where
  "gsheet_updateAttendee post attendeeId upd =
     (case checkin_sync_try post attendeeId upd of
        Inl error \<Rightarrow> Inl error
      | Inr result \<Rightarrow> Inr result)"

section \<open>SupabaseDataSource\<close>

text \<open>
  The client exists when both the URL and the key are set. A query either rejects or
  resolves to \<^verbatim>\<open>{ data, error }\<close>.
\<close>

record supabase_settings =
  url :: string
  anonKey :: string
  tableName :: string

definition supabase_client :: "supabase_settings \<Rightarrow> bool" where
  "supabase_client settings = (url settings \<noteq> [] \<and> anonKey settings \<noteq> [])"

datatype 'a db_reply = DbReply (db_error: "js_error option") (db_data: 'a)

definition supabase_loadData ::
  "supabase_settings \<Rightarrow> js_error + db_row list db_reply \<Rightarrow> js_error + attendee list" where
  "supabase_loadData settings query =
     (if \<not> supabase_client settings
      then Inl (Error ''Supabase not configured. Please provide URL and API key.'')
      else (case query of
              Inl error \<Rightarrow> Inl error
            | Inr reply \<Rightarrow>
                (case db_error reply of
                   Some error \<Rightarrow> Inl error
                 | None \<Rightarrow> Inr (supabase_normalizeAttendeeData (db_data reply)))))"

definition supabase_updateAttendee ::
  "supabase_settings \<Rightarrow> (jsid \<Rightarrow> updates \<Rightarrow> js_error + unit db_reply) \<Rightarrow> jsid \<Rightarrow> updates
     \<Rightarrow> js_error + unit" where
  "supabase_updateAttendee settings update_eq attendeeId upd =
     (if \<not> supabase_client settings then Inl (Error ''Supabase not configured'')
      else (case update_eq attendeeId upd of
              Inl error \<Rightarrow> Inl error
            | Inr reply \<Rightarrow>
                (case db_error reply of
                   Some error \<Rightarrow> Inl error
                 | None \<Rightarrow> Inr ())))"

section \<open>The roster in memory\<close>

text \<open>\<^verbatim>\<open>Array.prototype.findIndex\<close>: the first index whose element satisfies the test; \<open>None\<close> is -1.\<close>

fun findIndex :: "('a \<Rightarrow> bool) \<Rightarrow> 'a list \<Rightarrow> nat option" where
  "findIndex p [] = None"
| "findIndex p (x # xs) = (if p x then Some 0 else map_option Suc (findIndex p xs))"

subsection \<open>handleRealtimeUpdate (data-sources.js)\<close>

record payload =
  eventType :: string
  new_record :: "db_row option"
  old_record :: "db_row option"

definition handleRealtimeUpdate :: "payload \<Rightarrow> attendee list \<Rightarrow> attendee list" where
  "handleRealtimeUpdate p attendees =
     (if eventType p = ''UPDATE'' then
        (case new_record p of
           None \<Rightarrow> attendees
         | Some newRecord \<Rightarrow>
             (case findIndex (\<lambda>a. attendee_id a = row_id newRecord) attendees of
                None \<Rightarrow> attendees
              | Some index \<Rightarrow> attendees[index := realtime_record newRecord]))
      else attendees)"

subsection \<open>toggleCheckIn (the check-in interface plan)\<close>

text \<open>
  The function finds the record, flips it in place, awaits the data source and, when
  the data source rejects, runs the two assignments of its \<^verbatim>\<open>catch\<close> block on the same
  object. \<open>now\<close> is \<^verbatim>\<open>new Date().toISOString()\<close>. The record is the first one with the id;
  no other event is interleaved between the flip and the settlement.
\<close>

definition flip_status :: "string \<Rightarrow> string" where
  "flip_status s = (if s = ''checked-in'' then ''pending'' else ''checked-in'')"

definition optimistic_update :: "string \<Rightarrow> attendee \<Rightarrow> attendee" where
  "optimistic_update now attendee =
     (let newStatus = flip_status (status attendee);
          timestamp = (if newStatus = ''checked-in'' then Some now else None)
      in attendee\<lparr>status := newStatus, checkedInAt := timestamp\<rparr>)"

definition revert_update :: "string option \<Rightarrow> attendee \<Rightarrow> attendee" where
  "revert_update timestamp attendee =
     (let a1 = attendee\<lparr>status := flip_status (status attendee)\<rparr>
      in a1\<lparr>checkedInAt := (if status a1 = ''checked-in'' then timestamp else None)\<rparr>)"

definition toggleCheckIn ::
  "(jsid \<Rightarrow> updates \<Rightarrow> js_error + 'r) \<Rightarrow> string \<Rightarrow> jsid \<Rightarrow> attendee list \<Rightarrow> attendee list" where
  "toggleCheckIn updateAttendee now attendeeId attendees =
     (case findIndex (\<lambda>a. attendee_id a = Some attendeeId) attendees of
        None \<Rightarrow> attendees
      | Some i \<Rightarrow>
          (let flipped = optimistic_update now (attendees ! i);
               newStatus = status flipped;
               timestamp = checkedInAt flipped
           in case updateAttendee attendeeId
                     \<lparr> u_status = newStatus, u_checkedInAt = timestamp \<rparr> of
                Inr done \<Rightarrow> attendees[i := flipped]
              | Inl error \<Rightarrow> attendees[i := revert_update timestamp flipped]))"

text \<open>The invariant of the data model: checked in exactly when a check-in time is set.\<close>

definition consistent :: "attendee \<Rightarrow> bool" where
  "consistent a = ((status a = ''checked-in'') = (checkedInAt a \<noteq> None))"

text \<open>
  The same relation on the data the adapters read: an entry of the server-held check-in
  map, a row of the CSV endpoint and a row of the database, with the defaults the
  normalizers apply.
\<close>

definition entry_consistent :: "checkin_entry \<Rightarrow> bool" where
  "entry_consistent c = ((c_status c = ''checked-in'') = (c_checkedInAt c \<noteq> None))"

definition csv_row_consistent :: "csv_row \<Rightarrow> bool" where
  "csv_row_consistent r =
     ((str_or (r_status r) ''pending'' = ''checked-in'') = (str_or (r_checkedInAt r) [] \<noteq> []))"

definition db_row_consistent :: "db_row \<Rightarrow> bool" where
  "db_row_consistent r =
     ((str_or (row_status r) ''pending'' = ''checked-in'') = (checked_in_at r \<noteq> None))"

section \<open>DataSourceManager\<close>

text \<open>
  The three adapters the manager constructs, named by what \<^verbatim>\<open>getType()\<close> answers. The
  new type given to \<^verbatim>\<open>switchDataSource\<close> ranges over these three.
\<close>

datatype source_type = Csv | Googlesheets | Supabase

fun supportsPolling :: "source_type \<Rightarrow> bool" where
  "supportsPolling Csv = True"
| "supportsPolling Googlesheets = True"
| "supportsPolling Supabase = False"

text \<open>
  The state the manager and its callbacks read and write: the global roster, the
  current adapter, the interval of the armed polling timer (\<open>None\<close> when no timer runs),
  and the two parts of the configuration that the manager reads (the active type and
  each type's \<^verbatim>\<open>pollInterval\<close>, 0 when it is not set).
\<close>

record manager =
  attendees :: "attendee list"
  filteredAttendees :: "attendee list"
  currentSource :: "source_type option"
  pollingInterval :: "nat option"
  config_type :: source_type
  config_pollInterval :: "source_type \<Rightarrow> nat"

definition setDataSource :: "source_type \<Rightarrow> nat option \<Rightarrow> manager \<Rightarrow> manager" where
  "setDataSource newType settings st =
     st\<lparr> config_type := newType,
         config_pollInterval :=
           (case settings of
              None \<Rightarrow> config_pollInterval st
            | Some p \<Rightarrow> (config_pollInterval st)(newType := p)) \<rparr>"

definition loadDataSource :: "manager \<Rightarrow> manager" where
  "loadDataSource st = st\<lparr>currentSource := Some (config_type st)\<rparr>"

definition setupPolling :: "manager \<Rightarrow> manager" where
  "setupPolling st =
     (let configured = config_pollInterval st (config_type st);
          pollInterval = (if configured \<noteq> 0 then configured else 5000)
      in case currentSource st of
           None \<Rightarrow> st\<lparr>pollingInterval := None\<rparr>
         | Some src \<Rightarrow>
             if 0 < pollInterval \<and> supportsPolling src
             then st\<lparr>pollingInterval := Some pollInterval\<rparr>
             else st\<lparr>pollingInterval := None\<rparr>)"

definition handleDataSourceUpdate :: "attendee list \<Rightarrow> manager \<Rightarrow> manager" where
  "handleDataSourceUpdate data st = st\<lparr>attendees := data\<rparr>"

text \<open>
  The callbacks of one polling request: \<^verbatim>\<open>then\<close> replaces the roster when the data is
  non-empty, \<^verbatim>\<open>catch\<close> logs a warning. Neither reads which adapter the request went to.
\<close>

definition poll_settled :: "js_error + attendee list \<Rightarrow> manager \<Rightarrow> manager" where
  "poll_settled result st =
     (case result of
        Inr data \<Rightarrow> if data \<noteq> [] then handleDataSourceUpdate data st else st
      | Inl error \<Rightarrow> st)"

text \<open>
  \<^verbatim>\<open>switchDataSource\<close> up to its \<^verbatim>\<open>await\<close>: \<open>None\<close> when it returns early (same type, or the
  user does not confirm), otherwise the state with the roster cleared, the old timer
  stopped, the configuration updated, the new adapter built and polling armed again.
\<close>

definition switch_begin ::
  "source_type \<Rightarrow> nat option \<Rightarrow> bool \<Rightarrow> manager \<Rightarrow> manager option" where
  "switch_begin newType settings confirmed st =
     (if currentSource st = Some newType then None
      else if \<not> confirmed then None
      else Some (setupPolling (loadDataSource (setDataSource newType settings
                   (st\<lparr>attendees := [], filteredAttendees := [], pollingInterval := None\<rparr>)))))"

text \<open>\<^verbatim>\<open>switchDataSource\<close> after its \<^verbatim>\<open>await\<close>: the first load of the new adapter has settled.\<close>

definition switch_loaded :: "js_error + attendee list \<Rightarrow> manager \<Rightarrow> manager" where
  "switch_loaded result st =
     (case result of
        Inr data \<Rightarrow> if data \<noteq> [] then st\<lparr>attendees := data\<rparr> else st
      | Inl error \<Rightarrow> st)"

text \<open>
  The events of the event loop that touch the manager, in the order they run. A polling
  tick starts \<^verbatim>\<open>loadData\<close> on the current adapter and changes nothing by itself; its
  result arrives later as \<open>PollSettled\<close>.
\<close>

datatype event =
    PollTick
  | PollSettled "js_error + attendee list"
  | SwitchBegin source_type "nat option" bool
  | SwitchLoaded "js_error + attendee list"

fun step :: "event \<Rightarrow> manager \<Rightarrow> manager" where
  "step PollTick st = st"
| "step (PollSettled result) st = poll_settled result st"
| "step (SwitchBegin newType settings confirmed) st =
     (case switch_begin newType settings confirmed st of None \<Rightarrow> st | Some st' \<Rightarrow> st')"
| "step (SwitchLoaded result) st = switch_loaded result st"

fun run :: "event list \<Rightarrow> manager \<Rightarrow> manager" where
  "run [] st = st"
| "run (e # es) st = run es (step e st)"


section \<open>Sample values\<close>

text \<open>Concrete records for the worked scenarios below.\<close>

definition sample_attendee :: "jsid \<Rightarrow> string \<Rightarrow> string \<Rightarrow> string option \<Rightarrow> attendee" where
  "sample_attendee i name st t =
     \<lparr> attendee_id = Some i, tableNumber = ''Table 1'', groupName = ''VIP'',
       attendeeName = name, ticketType = ''VIP Ticket'', email = Some [],
       additionalInfo = Some [], status = st, checkedInAt = t, rowIndex = Some 2 \<rparr>"

definition sample_row :: "jsid \<Rightarrow> string \<Rightarrow> string \<Rightarrow> string option \<Rightarrow> db_row" where
  "sample_row i name st t =
     \<lparr> row_id = Some i, table_number = Some ''Table 1'', group_name = Some ''VIP'',
       attendee_name = Some name, ticket_type = Some ''VIP Ticket'', row_email = None,
       additional_info = None, meal_choice = None, row_status = Some st,
       checked_in_at = t, row_index = Some 2 \<rparr>"

definition sample_manager :: "attendee list \<Rightarrow> manager" where
  "sample_manager roster =
     \<lparr> attendees = roster, filteredAttendees = roster, currentSource = Some Csv,
       pollingInterval = Some 5000, config_type = Csv,
       config_pollInterval = (\<lambda>t. if t = Supabase then 0 else 5000) \<rparr>"

definition sample_csv_row :: "string \<Rightarrow> string \<Rightarrow> string option \<Rightarrow> csv_row" where
  "sample_csv_row name st t =
     \<lparr> r_id = None, r_tableNumber = Some ''Table 1'', r_groupName = Some ''VIP'',
       r_attendeeName = Some name, r_ticketType = Some ''VIP Ticket'', r_email = None,
       r_additionalInfo = None, r_mealChoice = None, r_status = Some st,
       r_checkedInAt = t, r_rowIndex = Some 2 \<rparr>"

definition sample_checkins :: "string \<Rightarrow> checkin_entry \<Rightarrow> checkin_data" where
  "sample_checkins key c = (\<lambda>k. if k = key then Some c else None)"

definition sample_ok :: "'b \<Rightarrow> 'b fetched" where
  "sample_ok payload = Inr (Response True 200 ''OK'' (Inr payload))"

section \<open>Auxiliary facts\<close>

lemma length_map_index: "length (map_index f k xs) = length xs"
  by (induction xs arbitrary: k) auto

lemma nth_map_index: "i < length xs \<Longrightarrow> map_index f k xs ! i = f (xs ! i) (k + i)"
proof (induction xs arbitrary: k i)
  case Nil
  then show ?case by simp
next
  case (Cons x xs)
  then show ?case by (cases i) auto
qed

lemma in_set_map_index:
  "a \<in> set (map_index f k xs) \<Longrightarrow> \<exists>i < length xs. a = f (xs ! i) (k + i)"
  by (metis in_set_conv_nth length_map_index nth_map_index)

lemma map_index_in_set:
  "i < length xs \<Longrightarrow> f (xs ! i) (k + i) \<in> set (map_index f k xs)"
  by (metis in_set_conv_nth length_map_index nth_map_index)

lemma findIndex_Some:
  "findIndex p xs = Some i \<Longrightarrow> i < length xs \<and> p (xs ! i) \<and> (\<forall>j < i. \<not> p (xs ! j))"
proof (induction xs arbitrary: i)
  case Nil
  then show ?case by simp
next
  case (Cons x xs)
  show ?case
  proof (cases "p x")
    case True
    with Cons.prems show ?thesis by simp
  next
    case False
    with Cons.prems obtain k where k: "findIndex p xs = Some k" and i: "i = Suc k"
      by auto
    from Cons.IH [OF k] have "k < length xs" "p (xs ! k)" "\<forall>j < k. \<not> p (xs ! j)"
      by simp_all
    with False i show ?thesis
      by (auto simp: nth_Cons split: nat.splits)
  qed
qed

lemma findIndex_None: "findIndex p xs = None \<longleftrightarrow> (\<forall>x \<in> set xs. \<not> p x)"
  by (induction xs) auto

lemma findIndex_exists: "\<exists>x \<in> set xs. p x \<Longrightarrow> \<exists>i. findIndex p xs = Some i"
  using findIndex_None [of p xs] by (cases "findIndex p xs") auto

lemma trim_Nil: "trim [] = []"
  by (simp add: trim_def)

section \<open>The normalizers' fallbacks\<close>

lemma gsheet_row_name: "attendeeName (gsheet_row ev row i) = trim (cell row 2)"
  by (simp add: gsheet_row_def Let_def)

lemma gsheet_row_group:
  "groupName (gsheet_row ev row i) =
     or_else (or_else (trim (cell row 1)) (trim (cell row 3))) ''General''"
  by (simp add: gsheet_row_def Let_def)

lemma gsheet_row_table:
  "tableNumber (gsheet_row ev row i) = or_else (trim (cell row 0)) ''General''"
  by (simp add: gsheet_row_def Let_def)

lemma gsheet_row_id:
  "attendee_id (gsheet_row ev row i) = Some (IdStr (gsheet_id (trim (cell row 2)) i))"
  by (simp add: gsheet_row_def Let_def)

lemma gsheet_row_pending:
  "status (gsheet_row ev row i) = ''pending'' \<and> checkedInAt (gsheet_row ev row i) = None"
  by (simp add: gsheet_row_def Let_def)

text \<open>
  \<open>normalizeAttendee\<close> answers a record for every row: after the table-number fallback
  the test of its last line cannot fail.
\<close>

lemma normalizeAttendee_Some:
  "normalizeAttendee vals r =
     Some \<lparr> attendee_id = None,
            tableNumber = or_else (trim (cell vals 0)) ''General'',
            groupName = or_else (trim (cell vals 1)) (trim (cell vals 3)),
            attendeeName = trim (cell vals 2),
            ticketType = trim (cell vals 3),
            email = None, additionalInfo = None, status = ''pending'',
            checkedInAt = None, rowIndex = Some r \<rparr>"
  by (simp add: normalizeAttendee_def Let_def or_else_def)

text \<open>
  C7. Both normalizers apply the fallbacks. In the Google Sheets adapter every record of
  the output comes from a row of the input, every row with a name gives a record, and the
  record's group is the ticket type when the row's group is empty and its ticket type is
  not, its table is "General" when the row's table is empty. In \<open>normalizeAttendee\<close> the
  record it answers has the same two properties.
\<close>

theorem fallbacks_applied:
  "(\<forall>a \<in> set (gsheet_normalizeAttendeeData ev data). \<exists>i < length data.
       a = gsheet_row ev (data ! i) i \<and>
       (trim (cell (data ! i) 1) = [] \<and> trim (cell (data ! i) 3) \<noteq> []
          \<longrightarrow> groupName a = trim (cell (data ! i) 3)) \<and>
       (trim (cell (data ! i) 0) = [] \<longrightarrow> tableNumber a = ''General''))
   \<and> (\<forall>i < length data. trim (cell (data ! i) 2) \<noteq> []
          \<longrightarrow> gsheet_row ev (data ! i) i \<in> set (gsheet_normalizeAttendeeData ev data))
   \<and> (\<exists>a. normalizeAttendee vals r = Some a \<and>
          (trim (cell vals 1) = [] \<and> trim (cell vals 3) \<noteq> []
             \<longrightarrow> groupName a = trim (cell vals 3)) \<and>
          (trim (cell vals 0) = [] \<longrightarrow> tableNumber a = ''General''))"
proof (intro conjI)
  show "\<forall>a \<in> set (gsheet_normalizeAttendeeData ev data). \<exists>i < length data.
       a = gsheet_row ev (data ! i) i \<and>
       (trim (cell (data ! i) 1) = [] \<and> trim (cell (data ! i) 3) \<noteq> []
          \<longrightarrow> groupName a = trim (cell (data ! i) 3)) \<and>
       (trim (cell (data ! i) 0) = [] \<longrightarrow> tableNumber a = ''General'')"
  proof
    fix a assume "a \<in> set (gsheet_normalizeAttendeeData ev data)"
    then have "a \<in> set (map_index (gsheet_row ev) 0 data)"
      by (simp add: gsheet_normalizeAttendeeData_def)
    then obtain i where i: "i < length data" and a: "a = gsheet_row ev (data ! i) i"
      using in_set_map_index [of a "gsheet_row ev" 0 data] by auto
    show "\<exists>i < length data.
       a = gsheet_row ev (data ! i) i \<and>
       (trim (cell (data ! i) 1) = [] \<and> trim (cell (data ! i) 3) \<noteq> []
          \<longrightarrow> groupName a = trim (cell (data ! i) 3)) \<and>
       (trim (cell (data ! i) 0) = [] \<longrightarrow> tableNumber a = ''General'')"
      using i a by (intro exI [of _ i]) (simp add: gsheet_row_group gsheet_row_table or_else_def)
  qed
next
  show "\<forall>i < length data. trim (cell (data ! i) 2) \<noteq> []
          \<longrightarrow> gsheet_row ev (data ! i) i \<in> set (gsheet_normalizeAttendeeData ev data)"
    using map_index_in_set [of _ data "gsheet_row ev" 0]
    by (auto simp: gsheet_normalizeAttendeeData_def gsheet_row_name)
next
  show "\<exists>a. normalizeAttendee vals r = Some a \<and>
          (trim (cell vals 1) = [] \<and> trim (cell vals 3) \<noteq> []
             \<longrightarrow> groupName a = trim (cell vals 3)) \<and>
          (trim (cell vals 0) = [] \<longrightarrow> tableNumber a = ''General'')"
    by (simp add: normalizeAttendee_Some or_else_def)
qed

text \<open>Scenario B of the specification, in both normalizers.\<close>

theorem fallbacks_applied_witness:
  "map (\<lambda>a. (groupName a, tableNumber a))
      (gsheet_normalizeAttendeeData None [['''', '''', ''Jane Doe'', ''Standard'']])
     = [(''Standard'', ''General'')]
   \<and> map_option (\<lambda>a. (groupName a, tableNumber a))
        (normalizeAttendee ['''', '''', ''Jane Doe'', ''Standard''] 2)
     = Some (''Standard'', ''General'')"
  using fallbacks_applied [of None "[['''', '''', ''Jane Doe'', ''Standard'']]"
      "['''', '''', ''Jane Doe'', ''Standard'']" 2]
  by (auto simp: gsheet_normalizeAttendeeData_def gsheet_row_def cell_def trim_def
        is_space_def or_else_def Let_def)

text \<open>
  The row of four empty cells is dropped by the Google Sheets adapter; \<open>normalizeAttendee\<close>
  answers a record for it, with the table number "General", and so does \<open>parseSheetRows\<close>
  for a row whose first cell holds only blanks.
\<close>

lemma blank_row_example:
  "gsheet_normalizeAttendeeData None [['''', '''', '''', '''']] = []
   \<and> normalizeAttendee ['''', '''', '''', ''''] 2 =
       Some \<lparr> attendee_id = None, tableNumber = ''General'', groupName = [],
              attendeeName = [], ticketType = [], email = None, additionalInfo = None,
              status = ''pending'', checkedInAt = None, rowIndex = Some 2 \<rparr>
   \<and> parseSheetRows [[''Table'', ''Group'', ''Name''], [''  '', '''', '''']] =
       [\<lparr> attendee_id = None, tableNumber = ''General'', groupName = [],
           attendeeName = [], ticketType = [], email = None, additionalInfo = None,
           status = ''pending'', checkedInAt = None, rowIndex = Some 2 \<rparr>]"
  by (simp add: gsheet_normalizeAttendeeData_def gsheet_row_def normalizeAttendee_Some
        parseSheetRows_def List.map_filter_def cell_def trim_def is_space_def or_else_def
        Let_def)







section \<open>parseCsvData\<close>

lemma process_lines_eq:
  "process_lines ls acc =
     acc @ filter (\<lambda>vals. 3 \<le> length (filter (\<lambda>v. v \<noteq> []) vals))
             (map parse_line (filter (\<lambda>line. trim line \<noteq> []) ls))"
  by (induction ls arbitrary: acc) (auto simp: Let_def)

lemma filter_nonblank_drop:
  "filter (\<lambda>line. trim line \<noteq> []) (drop n (filter (\<lambda>line. trim line \<noteq> []) xs))
     = drop n (filter (\<lambda>line. trim line \<noteq> []) xs)"
  by (rule filter_True) (auto dest: in_set_dropD)

lemma parseCsvData_eq:
  "parseCsvData csvText =
     filter (\<lambda>vals. 3 \<le> length (filter (\<lambda>v. v \<noteq> []) vals))
       (map parse_line (drop 1 (filter (\<lambda>line. trim line \<noteq> []) (split_lines csvText))))"
  by (simp add: parseCsvData_def Let_def process_lines_eq filter_nonblank_drop)

text \<open>
  C10. The rows \<open>parseCsvData\<close> answers are the parsed non-blank lines after the first
  one, in order, that have at least three non-empty values. So the first non-blank line
  is never a row, fewer than two non-blank lines give no row, every answered row has at
  least three non-empty values, and a line with fewer is in the answer only if some
  other line parses to the same values.
\<close>

theorem parseCsvData_admits:
  "parseCsvData csvText =
     filter (\<lambda>vals. 3 \<le> length (filter (\<lambda>v. v \<noteq> []) vals))
       (map parse_line (drop 1 (filter (\<lambda>line. trim line \<noteq> []) (split_lines csvText))))
   \<and> (length (filter (\<lambda>line. trim line \<noteq> []) (split_lines csvText)) < 2
        \<longrightarrow> parseCsvData csvText = [])
   \<and> (\<forall>vals \<in> set (parseCsvData csvText). 3 \<le> length (filter (\<lambda>v. v \<noteq> []) vals))
   \<and> (length (filter (\<lambda>v. v \<noteq> []) (parse_line line)) < 3
        \<longrightarrow> parse_line line \<notin> set (parseCsvData csvText))"
proof (intro conjI impI)
  show "parseCsvData csvText =
     filter (\<lambda>vals. 3 \<le> length (filter (\<lambda>v. v \<noteq> []) vals))
       (map parse_line (drop 1 (filter (\<lambda>line. trim line \<noteq> []) (split_lines csvText))))"
    by (rule parseCsvData_eq)
next
  assume "length (filter (\<lambda>line. trim line \<noteq> []) (split_lines csvText)) < 2"
  then show "parseCsvData csvText = []"
    by (simp add: parseCsvData_def)
next
  show "\<forall>vals \<in> set (parseCsvData csvText). 3 \<le> length (filter (\<lambda>v. v \<noteq> []) vals)"
    unfolding parseCsvData_eq by simp
next
  assume "length (filter (\<lambda>v. v \<noteq> []) (parse_line line)) < 3"
  then show "parse_line line \<notin> set (parseCsvData csvText)"
    unfolding parseCsvData_eq by simp
qed

text \<open>
  A sheet with a header, a row that carries only a name and a ticket type, and a full
  row with a quoted comma: only the full row is answered. A single line gives nothing.
\<close>

lemma parseCsvData_example:
  "parseCsvData (''T,G,N,K'' @ [CHR 0x0A] @ '',,Jane Doe,Standard''
       @ [CHR 0x0A] @ ''T1,VIP,'' @ [CHR 0x22] @ ''Smith, John'' @ [CHR 0x22]
       @ '',VIP Ticket'' @ [CHR 0x0D, CHR 0x0A])
     = [[''T1'', ''VIP'', ''Smith, John'', ''VIP Ticket'']]"
  by code_simp

lemma parse_line_example:
  "parse_line '',,Jane Doe,Standard'' = ['''', '''', ''Jane Doe'', ''Standard'']"
  by code_simp

lemma nonblank_single_line:
  "filter (\<lambda>line. trim line \<noteq> []) (split_lines ''T1,VIP,John Smith,VIP Ticket'')
     = [''T1,VIP,John Smith,VIP Ticket'']"
  by code_simp

theorem parseCsvData_admits_witness:
  "parseCsvData (''T,G,N,K'' @ [CHR 0x0A] @ '',,Jane Doe,Standard''
       @ [CHR 0x0A] @ ''T1,VIP,'' @ [CHR 0x22] @ ''Smith, John'' @ [CHR 0x22]
       @ '',VIP Ticket'' @ [CHR 0x0D, CHR 0x0A])
     = [[''T1'', ''VIP'', ''Smith, John'', ''VIP Ticket'']]
   \<and> parse_line '',,Jane Doe,Standard'' \<notin> set (parseCsvData (''T,G,N,K'' @ [CHR 0x0A]
       @ '',,Jane Doe,Standard''
       @ [CHR 0x0A] @ ''T1,VIP,'' @ [CHR 0x22] @ ''Smith, John'' @ [CHR 0x22]
       @ '',VIP Ticket'' @ [CHR 0x0D, CHR 0x0A]))
   \<and> parseCsvData ''T1,VIP,John Smith,VIP Ticket'' = []"
proof -
  have few: "length (filter (\<lambda>v. v \<noteq> []) (parse_line '',,Jane Doe,Standard'')) < 3"
    unfolding parse_line_example by simp
  have one: "length (filter (\<lambda>line. trim line \<noteq> [])
                (split_lines ''T1,VIP,John Smith,VIP Ticket'')) < 2"
    unfolding nonblank_single_line by simp
  from few one parseCsvData_example
    parseCsvData_admits [of _ "'',,Jane Doe,Standard''"]
    parseCsvData_admits [of "''T1,VIP,John Smith,VIP Ticket''"]
  show ?thesis by blast
qed


section \<open>Synthesized identifiers\<close>

lemma replace_ws_Nil_iff: "replace_ws s = [] \<longleftrightarrow> s = []"
  by (cases s) auto

lemma norm_name_Nil_iff: "toLowerCase (replace_ws s) = [] \<longleftrightarrow> s = []"
  by (simp add: toLowerCase_def replace_ws_Nil_iff)

text \<open>The id depends on the name only through its lower-cased, underscore-joined form.\<close>

lemma gsheet_id_norm:
  "gsheet_id fullName index =
     (if toLowerCase (replace_ws fullName) \<noteq> []
      then ''gsheet_'' @ toLowerCase (replace_ws fullName) @ ''_'' @ show_nat index
      else ''gsheet_'' @ show_nat index)"
  by (simp add: gsheet_id_def norm_name_Nil_iff)

lemma gsheet_ids_from:
  "map attendee_id (filter (\<lambda>a. attendeeName a \<noteq> []) (map_index (gsheet_row ev) k data)) =
     map (\<lambda>(i, n). Some (IdStr (''gsheet_'' @ n @ ''_'' @ show_nat i)))
       (filter (\<lambda>(i, n). n \<noteq> [])
          (enumerate k (map (\<lambda>row. toLowerCase (replace_ws (trim (cell row 2)))) data)))"
  by (induction data arbitrary: k)
     (simp_all add: gsheet_row_id gsheet_row_name gsheet_id_norm norm_name_Nil_iff)

lemma csv_ids_from:
  "\<forall>r \<in> set data. \<not> truthy_id (r_id r) \<Longrightarrow>
   map attendee_id (map_index csv_record k data) =
     map (\<lambda>(i, r). Some (IdStr (''csv_'' @ show_nat i))) (enumerate k (map (\<lambda>r. ()) data))"
  by (induction data arbitrary: k) (simp_all add: csv_record_def)

text \<open>
  C9. Two Google Sheets snapshots whose rows have, position by position, the same
  normalized name (trimmed, white space joined by underscores, lower case) get the same
  list of ids, whatever the other columns and the email validator are. Two CSV snapshots
  of the same length whose rows carry no id get the same list of ids. In particular the
  same snapshot normalized twice gets the same ids.
\<close>

theorem synthesized_ids_deterministic:
  "(map (\<lambda>row. toLowerCase (replace_ws (trim (cell row 2)))) d1 =
      map (\<lambda>row. toLowerCase (replace_ws (trim (cell row 2)))) d2
    \<longrightarrow> map attendee_id (gsheet_normalizeAttendeeData ev1 d1) =
        map attendee_id (gsheet_normalizeAttendeeData ev2 d2))
   \<and> (length c1 = length c2 \<and> (\<forall>r \<in> set c1. \<not> truthy_id (r_id r))
        \<and> (\<forall>r \<in> set c2. \<not> truthy_id (r_id r))
    \<longrightarrow> map attendee_id (csv_normalizeAttendeeData c1) =
        map attendee_id (csv_normalizeAttendeeData c2))"
proof (intro conjI impI)
  assume "map (\<lambda>row. toLowerCase (replace_ws (trim (cell row 2)))) d1 =
      map (\<lambda>row. toLowerCase (replace_ws (trim (cell row 2)))) d2"
  then show "map attendee_id (gsheet_normalizeAttendeeData ev1 d1) =
        map attendee_id (gsheet_normalizeAttendeeData ev2 d2)"
    by (simp add: gsheet_normalizeAttendeeData_def gsheet_ids_from)
next
  assume h: "length c1 = length c2 \<and> (\<forall>r \<in> set c1. \<not> truthy_id (r_id r))
        \<and> (\<forall>r \<in> set c2. \<not> truthy_id (r_id r))"
  then have "map (\<lambda>r. ()) c1 = map (\<lambda>r. ()) c2"
    by (simp add: list_eq_iff_nth_eq)
  with h show "map attendee_id (csv_normalizeAttendeeData c1) =
        map attendee_id (csv_normalizeAttendeeData c2)"
    by (simp add: csv_normalizeAttendeeData_def csv_ids_from)
qed

text \<open>
  Two sheets that agree on the names up to case and spacing, and two one-row CSV
  snapshots without ids, with the ids they get.
\<close>

lemma norm_names_example:
  "map (\<lambda>row. toLowerCase (replace_ws (trim (cell row 2))))
      [[''Table 1'', ''VIP'', ''John Smith'', ''VIP Ticket''], [''T2'', ''A'', '''', ''x'']]
   = map (\<lambda>row. toLowerCase (replace_ws (trim (cell row 2))))
      [[''Table 9'', '''', '' JOHN   smith '', ''''], []]"
  by code_simp

lemma gsheet_ids_example:
  "map attendee_id (gsheet_normalizeAttendeeData None
      [[''Table 1'', ''VIP'', ''John Smith'', ''VIP Ticket''], [''T2'', ''A'', '''', ''x'']])
   = [Some (IdStr ''gsheet_john_smith_0'')]"
  by code_simp

lemma csv_ids_example:
  "map attendee_id (csv_normalizeAttendeeData
      [\<lparr> r_id = None, r_tableNumber = Some ''Table 1'', r_groupName = None,
          r_attendeeName = Some ''John Smith'', r_ticketType = None, r_email = None,
          r_additionalInfo = None, r_mealChoice = None, r_status = None,
          r_checkedInAt = None, r_rowIndex = None \<rparr>])
   = [Some (IdStr ''csv_0'')]"
  by code_simp

theorem synthesized_ids_deterministic_witness:
  "map attendee_id (gsheet_normalizeAttendeeData (Some (\<lambda>e. (True, e)))
      [[''Table 9'', '''', '' JOHN   smith '', ''''], []])
     = [Some (IdStr ''gsheet_john_smith_0'')]
   \<and> map attendee_id (csv_normalizeAttendeeData
      [\<lparr> r_id = Some (IdStr []), r_tableNumber = None, r_groupName = Some ''VIP'',
          r_attendeeName = Some ''Jane Doe'', r_ticketType = None, r_email = None,
          r_additionalInfo = None, r_mealChoice = None, r_status = Some ''checked-in'',
          r_checkedInAt = None, r_rowIndex = Some 7 \<rparr>])
     = [Some (IdStr ''csv_0'')]"
  using synthesized_ids_deterministic
      [of "[[''Table 1'', ''VIP'', ''John Smith'', ''VIP Ticket''], [''T2'', ''A'', '''', ''x'']]"
          "[[''Table 9'', '''', '' JOHN   smith '', ''''], []]"
          None "Some (\<lambda>e. (True, e))"
          "[\<lparr> r_id = None, r_tableNumber = Some ''Table 1'', r_groupName = None,
              r_attendeeName = Some ''John Smith'', r_ticketType = None, r_email = None,
              r_additionalInfo = None, r_mealChoice = None, r_status = None,
              r_checkedInAt = None, r_rowIndex = None \<rparr>]"
          "[\<lparr> r_id = Some (IdStr []), r_tableNumber = None, r_groupName = Some ''VIP'',
              r_attendeeName = Some ''Jane Doe'', r_ticketType = None, r_email = None,
              r_additionalInfo = None, r_mealChoice = None, r_status = Some ''checked-in'',
              r_checkedInAt = None, r_rowIndex = Some 7 \<rparr>]"]
    norm_names_example gsheet_ids_example csv_ids_example
  by simp


section \<open>Real-time updates\<close>

text \<open>
  C8. An UPDATE whose new record's id is the id of a roster record replaces one record,
  at an index holding that id, by the record built from the payload, and every other
  position keeps its record. A payload whose new record's id is in no roster record, a
  payload without a new record, and a payload of any other event type leave the roster
  as it is.
\<close>

theorem handleRealtimeUpdate_frame:
  "(eventType p = ''UPDATE'' \<and> new_record p = Some r
      \<and> (\<exists>a \<in> set roster. attendee_id a = row_id r)
    \<longrightarrow> (\<exists>i < length roster.
          attendee_id (roster ! i) = row_id r
          \<and> handleRealtimeUpdate p roster = roster[i := realtime_record r]
          \<and> length (handleRealtimeUpdate p roster) = length roster
          \<and> handleRealtimeUpdate p roster ! i = realtime_record r
          \<and> (\<forall>j < length roster. j \<noteq> i \<longrightarrow> handleRealtimeUpdate p roster ! j = roster ! j)))
   \<and> (new_record p = Some r \<and> (\<forall>a \<in> set roster. attendee_id a \<noteq> row_id r)
    \<longrightarrow> handleRealtimeUpdate p roster = roster)
   \<and> (new_record p = None \<longrightarrow> handleRealtimeUpdate p roster = roster)
   \<and> (eventType p \<noteq> ''UPDATE'' \<longrightarrow> handleRealtimeUpdate p roster = roster)"
proof (intro conjI impI)
  assume h: "eventType p = ''UPDATE'' \<and> new_record p = Some r
      \<and> (\<exists>a \<in> set roster. attendee_id a = row_id r)"
  then obtain i where i: "findIndex (\<lambda>a. attendee_id a = row_id r) roster = Some i"
    using findIndex_exists [of roster "\<lambda>a. attendee_id a = row_id r"] by blast
  from findIndex_Some [OF i] have lt: "i < length roster"
    and idm: "attendee_id (roster ! i) = row_id r" by simp_all
  from h i have eq: "handleRealtimeUpdate p roster = roster[i := realtime_record r]"
    by (simp add: handleRealtimeUpdate_def)
  show "\<exists>i < length roster.
          attendee_id (roster ! i) = row_id r
          \<and> handleRealtimeUpdate p roster = roster[i := realtime_record r]
          \<and> length (handleRealtimeUpdate p roster) = length roster
          \<and> handleRealtimeUpdate p roster ! i = realtime_record r
          \<and> (\<forall>j < length roster. j \<noteq> i \<longrightarrow> handleRealtimeUpdate p roster ! j = roster ! j)"
    using lt idm eq by (intro exI [of _ i]) simp
next
  assume h: "new_record p = Some r \<and> (\<forall>a \<in> set roster. attendee_id a \<noteq> row_id r)"
  then have "findIndex (\<lambda>a. attendee_id a = row_id r) roster = None"
    by (simp add: findIndex_None)
  with h show "handleRealtimeUpdate p roster = roster"
    by (simp add: handleRealtimeUpdate_def)
next
  assume "new_record p = None"
  then show "handleRealtimeUpdate p roster = roster"
    by (simp add: handleRealtimeUpdate_def)
next
  assume "eventType p \<noteq> ''UPDATE''"
  then show "handleRealtimeUpdate p roster = roster"
    by (simp add: handleRealtimeUpdate_def)
qed

text \<open>
  Scenario C of the specification: the update of id 7 against a roster that holds ids 3
  and 7 changes the record at index 1 only; against a roster without id 7, and as an
  INSERT, it changes nothing.
\<close>

theorem handleRealtimeUpdate_frame_witness:
  "handleRealtimeUpdate
      \<lparr> eventType = ''UPDATE'',
        new_record = Some (sample_row (IdNum 7) ''John Doe'' ''checked-in''
                             (Some ''2026-01-23T10:00:00Z'')),
        old_record = None \<rparr>
      [sample_attendee (IdNum 3) ''Ann Lee'' ''pending'' None,
       sample_attendee (IdNum 7) ''John Doe'' ''pending'' None]
     = [sample_attendee (IdNum 3) ''Ann Lee'' ''pending'' None,
        realtime_record (sample_row (IdNum 7) ''John Doe'' ''checked-in''
                           (Some ''2026-01-23T10:00:00Z''))]
   \<and> handleRealtimeUpdate
      \<lparr> eventType = ''UPDATE'',
        new_record = Some (sample_row (IdNum 7) ''John Doe'' ''checked-in''
                             (Some ''2026-01-23T10:00:00Z'')),
        old_record = None \<rparr>
      [sample_attendee (IdNum 3) ''Ann Lee'' ''pending'' None]
     = [sample_attendee (IdNum 3) ''Ann Lee'' ''pending'' None]
   \<and> handleRealtimeUpdate
      \<lparr> eventType = ''INSERT'',
        new_record = Some (sample_row (IdNum 7) ''John Doe'' ''checked-in''
                             (Some ''2026-01-23T10:00:00Z'')),
        old_record = None \<rparr>
      [sample_attendee (IdNum 3) ''Ann Lee'' ''pending'' None,
       sample_attendee (IdNum 7) ''John Doe'' ''pending'' None]
     = [sample_attendee (IdNum 3) ''Ann Lee'' ''pending'' None,
        sample_attendee (IdNum 7) ''John Doe'' ''pending'' None]"
proof -
  let ?r = "sample_row (IdNum 7) ''John Doe'' ''checked-in'' (Some ''2026-01-23T10:00:00Z'')"
  let ?a3 = "sample_attendee (IdNum 3) ''Ann Lee'' ''pending'' None"
  let ?a7 = "sample_attendee (IdNum 7) ''John Doe'' ''pending'' None"
  let ?upd = "\<lparr> eventType = ''UPDATE'', new_record = Some ?r, old_record = None \<rparr>"
  let ?ins = "\<lparr> eventType = ''INSERT'', new_record = Some ?r, old_record = None \<rparr>"
  have ids: "attendee_id ?a3 = Some (IdNum 3)" "attendee_id ?a7 = Some (IdNum 7)"
    "row_id ?r = Some (IdNum 7)"
    by (simp_all add: sample_attendee_def sample_row_def)
  have prem: "eventType ?upd = ''UPDATE'' \<and> new_record ?upd = Some ?r
      \<and> (\<exists>a \<in> set [?a3, ?a7]. attendee_id a = row_id ?r)"
    by (simp add: ids)
  from handleRealtimeUpdate_frame [of ?upd ?r "[?a3, ?a7]"] prem
  have "\<exists>i < length [?a3, ?a7]. attendee_id ([?a3, ?a7] ! i) = row_id ?r
          \<and> handleRealtimeUpdate ?upd [?a3, ?a7] = [?a3, ?a7][i := realtime_record ?r]"
    by blast
  then obtain i where i: "i < length [?a3, ?a7]"
    "attendee_id ([?a3, ?a7] ! i) = row_id ?r"
    "handleRealtimeUpdate ?upd [?a3, ?a7] = [?a3, ?a7][i := realtime_record ?r]"
    by blast
  from i(1) have "i = 0 \<or> i = 1"
    by auto
  with i(2) have "i = 1"
    by (auto simp: ids)
  with i(3) have first: "handleRealtimeUpdate ?upd [?a3, ?a7] = [?a3, realtime_record ?r]"
    by simp
  from handleRealtimeUpdate_frame [of ?upd ?r "[?a3]"]
  have second: "handleRealtimeUpdate ?upd [?a3] = [?a3]"
    by (simp add: ids)
  from handleRealtimeUpdate_frame [of ?ins ?r "[?a3, ?a7]"]
  have third: "handleRealtimeUpdate ?ins [?a3, ?a7] = [?a3, ?a7]"
    by simp
  from first second third show ?thesis by simp
qed


section \<open>Check-in, undo and rollback\<close>

lemma flip_flip:
  "flip_status (flip_status s) = (if s = ''checked-in'' then ''checked-in'' else ''pending'')"
  by (simp add: flip_status_def)

lemma consistent_optimistic: "consistent (optimistic_update now a)"
  by (simp add: consistent_def optimistic_update_def flip_status_def Let_def)

text \<open>
  What the \<^verbatim>\<open>catch\<close> block leaves behind: the status is flipped back, and the check-in
  time is \<^verbatim>\<open>null\<close> whatever it was before, because the block reads \<^verbatim>\<open>timestamp\<close>, the time
  of the attempted change, where the time before the change was needed.
\<close>

lemma revert_after_flip:
  "revert_update (checkedInAt (optimistic_update now a)) (optimistic_update now a) =
     a\<lparr> status := (if status a = ''checked-in'' then ''checked-in'' else ''pending''),
        checkedInAt := None \<rparr>"
  by (simp add: revert_update_def optimistic_update_def flip_status_def Let_def)

lemma toggleCheckIn_resolved:
  assumes "findIndex (\<lambda>a. attendee_id a = Some aid) roster = Some i"
    and "updateAttendee aid \<lparr> u_status = status (optimistic_update now (roster ! i)),
            u_checkedInAt = checkedInAt (optimistic_update now (roster ! i)) \<rparr> = Inr d"
  shows "toggleCheckIn updateAttendee now aid roster =
           roster[i := optimistic_update now (roster ! i)]"
  using assms by (simp add: toggleCheckIn_def Let_def)

lemma toggleCheckIn_rejected:
  assumes "findIndex (\<lambda>a. attendee_id a = Some aid) roster = Some i"
    and "updateAttendee aid \<lparr> u_status = status (optimistic_update now (roster ! i)),
            u_checkedInAt = checkedInAt (optimistic_update now (roster ! i)) \<rparr> = Inl e"
  shows "toggleCheckIn updateAttendee now aid roster =
           roster[i := (roster ! i)\<lparr>
              status := (if status (roster ! i) = ''checked-in'' then ''checked-in''
                         else ''pending''),
              checkedInAt := None \<rparr>]"
  using assms by (simp add: toggleCheckIn_def Let_def revert_after_flip)

lemma toggleCheckIn_unknown:
  "findIndex (\<lambda>a. attendee_id a = Some aid) roster = None \<Longrightarrow>
     toggleCheckIn updateAttendee now aid roster = roster"
  by (simp add: toggleCheckIn_def)

text \<open>
  C1. The undo of a checked-in record whose \<open>updateAttendee\<close> rejects: the record comes
  back checked in, and its check-in time of 10:00 has become \<^verbatim>\<open>null\<close>.
\<close>

theorem toggleCheckIn_rollback_loses_time:
  "toggleCheckIn (\<lambda>i u. Inl (Error ''Network error'') :: js_error + unit)
      ''2026-01-23T10:05:00Z'' (IdStr ''7'')
      [sample_attendee (IdStr ''3'') ''Ann Lee'' ''pending'' None,
       sample_attendee (IdStr ''7'') ''John Doe'' ''checked-in''
         (Some ''2026-01-23T10:00:00Z'')]
   = [sample_attendee (IdStr ''3'') ''Ann Lee'' ''pending'' None,
      sample_attendee (IdStr ''7'') ''John Doe'' ''checked-in'' None]"
  by (simp add: toggleCheckIn_def sample_attendee_def optimistic_update_def
        revert_update_def flip_status_def Let_def)

theorem toggleCheckIn_rollback_loses_time_witness:
  "toggleCheckIn (\<lambda>i u. Inl (Error ''Network error'') :: js_error + unit)
      ''2026-01-23T10:05:00Z'' (IdStr ''7'')
      [sample_attendee (IdStr ''3'') ''Ann Lee'' ''pending'' None,
       sample_attendee (IdStr ''7'') ''John Doe'' ''checked-in''
         (Some ''2026-01-23T10:00:00Z'')]
   \<noteq> [sample_attendee (IdStr ''3'') ''Ann Lee'' ''pending'' None,
       sample_attendee (IdStr ''7'') ''John Doe'' ''checked-in''
         (Some ''2026-01-23T10:00:00Z'')]
   \<and> \<not> consistent (toggleCheckIn (\<lambda>i u. Inl (Error ''Network error'') :: js_error + unit)
      ''2026-01-23T10:05:00Z'' (IdStr ''7'')
      [sample_attendee (IdStr ''3'') ''Ann Lee'' ''pending'' None,
       sample_attendee (IdStr ''7'') ''John Doe'' ''checked-in''
         (Some ''2026-01-23T10:00:00Z'')] ! 1)"
  unfolding toggleCheckIn_rollback_loses_time
  by (simp add: sample_attendee_def consistent_def)

text \<open>
  What does hold of the rollback: the other records are untouched, the toggled record
  keeps every field but the two, and the roster is the one before the call exactly when
  the record had no check-in time and one of the two status values.
\<close>

theorem toggleCheckIn_rollback_frame:
  assumes "findIndex (\<lambda>a. attendee_id a = Some aid) roster = Some i"
    and "\<forall>u. updateAttendee aid u = Inl e"
  shows "length (toggleCheckIn updateAttendee now aid roster) = length roster
     \<and> (\<forall>j < length roster. j \<noteq> i \<longrightarrow>
           toggleCheckIn updateAttendee now aid roster ! j = roster ! j)
     \<and> toggleCheckIn updateAttendee now aid roster ! i =
         (roster ! i)\<lparr> status := (if status (roster ! i) = ''checked-in''
                                   then ''checked-in'' else ''pending''),
                        checkedInAt := None \<rparr>
     \<and> (toggleCheckIn updateAttendee now aid roster = roster \<longleftrightarrow>
          checkedInAt (roster ! i) = None
          \<and> (status (roster ! i) = ''checked-in'' \<or> status (roster ! i) = ''pending''))"
proof -
  let ?b = "(roster ! i)\<lparr> status := (if status (roster ! i) = ''checked-in''
                                   then ''checked-in'' else ''pending''),
                        checkedInAt := None \<rparr>"
  from findIndex_Some [OF assms(1)] have lt: "i < length roster"
    by simp
  from assms have eq: "toggleCheckIn updateAttendee now aid roster = roster[i := ?b]"
    by (intro toggleCheckIn_rejected) simp_all
  have restored: "roster[i := ?b] = roster \<longleftrightarrow> ?b = roster ! i"
    using lt by (metis list_update_id nth_list_update_eq)
  have same: "?b = roster ! i \<longleftrightarrow>
      checkedInAt (roster ! i) = None
      \<and> (status (roster ! i) = ''checked-in'' \<or> status (roster ! i) = ''pending'')"
    by (cases "roster ! i") auto
  show ?thesis
    unfolding eq using lt restored same by simp
qed

theorem toggleCheckIn_rollback_frame_witness:
  "toggleCheckIn (\<lambda>i u. Inl (Error ''Network error'') :: js_error + unit)
      ''2026-01-23T10:05:00Z'' (IdStr ''7'')
      [sample_attendee (IdStr ''3'') ''Ann Lee'' ''pending'' None,
       sample_attendee (IdStr ''7'') ''John Doe'' ''pending'' None]
   = [sample_attendee (IdStr ''3'') ''Ann Lee'' ''pending'' None,
      sample_attendee (IdStr ''7'') ''John Doe'' ''pending'' None]"
proof -
  let ?roster = "[sample_attendee (IdStr ''3'') ''Ann Lee'' ''pending'' None,
       sample_attendee (IdStr ''7'') ''John Doe'' ''pending'' None]"
  have found: "findIndex (\<lambda>a. attendee_id a = Some (IdStr ''7'')) ?roster = Some 1"
    by (simp add: sample_attendee_def)
  have fields: "checkedInAt (?roster ! 1) = None" "status (?roster ! 1) = ''pending''"
    by (simp_all add: sample_attendee_def)
  from toggleCheckIn_rollback_frame
    [of "IdStr ''7''" ?roster 1 "\<lambda>i u. Inl (Error ''Network error'')"
        "Error ''Network error''" "''2026-01-23T10:05:00Z''", OF found]
  have "(toggleCheckIn (\<lambda>i u. Inl (Error ''Network error'') :: js_error + unit)
           ''2026-01-23T10:05:00Z'' (IdStr ''7'') ?roster = ?roster) \<longleftrightarrow>
        (checkedInAt (?roster ! 1) = None
         \<and> (status (?roster ! 1) = ''checked-in'' \<or> status (?roster ! 1) = ''pending''))"
    by blast
  with fields
  show ?thesis by simp
qed


section \<open>The status invariant\<close>

lemma gsheet_consistent:
  assumes "a \<in> set (gsheet_normalizeAttendeeData ev data)"
  shows "consistent a"
proof -
  from assms have "a \<in> set (map_index (gsheet_row ev) 0 data)"
    by (simp add: gsheet_normalizeAttendeeData_def)
  from in_set_map_index [OF this]
  obtain i where "a = gsheet_row ev (data ! i) (0 + i)"
    by auto
  then show ?thesis
    by (simp add: consistent_def gsheet_row_pending)
qed

lemma csv_record_status: "status (csv_record r i) = str_or (r_status r) ''pending''"
  by (simp add: csv_record_def)

lemma csv_record_time:
  "(checkedInAt (csv_record r i) \<noteq> None) = (str_or (r_checkedInAt r) [] \<noteq> [])"
  by (cases "r_checkedInAt r") (simp_all add: csv_record_def str_or_def)

lemma csv_record_consistent: "consistent (csv_record r i) = csv_row_consistent r"
  unfolding consistent_def csv_row_consistent_def csv_record_status csv_record_time ..

lemma csv_consistent:
  assumes "a \<in> set (csv_normalizeAttendeeData data)" and "\<forall>r \<in> set data. csv_row_consistent r"
  shows "consistent a"
proof -
  from assms(1) have "a \<in> set (map_index csv_record 0 data)"
    by (simp add: csv_normalizeAttendeeData_def)
  from in_set_map_index [OF this]
  obtain i where "i < length data" and "a = csv_record (data ! i) (0 + i)"
    by auto
  with assms(2) show ?thesis
    by (simp add: csv_record_consistent)
qed

lemma supabase_record_consistent: "consistent (supabase_record r) = db_row_consistent r"
  by (simp add: consistent_def supabase_record_def db_row_consistent_def)

lemma overlay_consistent:
  assumes "consistent a" and "\<forall>c. cd k = Some c \<longrightarrow> entry_consistent c"
  shows "consistent (case cd k of
                       Some c \<Rightarrow> a\<lparr>status := c_status c, checkedInAt := c_checkedInAt c\<rparr>
                     | None \<Rightarrow> a)"
proof (cases "cd k")
  case None
  with assms(1) show ?thesis by simp
next
  case (Some c)
  with assms(2) have "entry_consistent c" by simp
  with Some show ?thesis
    by (simp add: consistent_def entry_consistent_def)
qed

lemma apply_checkins_consistent:
  assumes "\<forall>a \<in> set xs. consistent a"
    and "\<forall>k c. cd k = Some c \<longrightarrow> entry_consistent c"
  shows "\<forall>a \<in> set (apply_checkins cd xs). consistent a"
proof
  fix b assume "b \<in> set (apply_checkins cd xs)"
  then obtain a where a: "a \<in> set xs"
    and b: "b = (case cd (key_of (attendee_id a)) of
                   Some c \<Rightarrow> a\<lparr>status := c_status c, checkedInAt := c_checkedInAt c\<rparr>
                 | None \<Rightarrow> a)"
    unfolding apply_checkins_def by auto
  from a assms(1) have "consistent a" by simp
  moreover from assms(2) have "\<forall>c. cd (key_of (attendee_id a)) = Some c \<longrightarrow> entry_consistent c"
    by simp
  ultimately show "consistent b"
    unfolding b by (rule overlay_consistent)
qed

lemma load_checkins_cases:
  "load_checkins f xs = xs \<or>
   (\<exists>resp cd. f = Inr resp \<and> body resp = Inr cd \<and> load_checkins f xs = apply_checkins cd xs)"
proof (cases f)
  case (Inl e)
  then show ?thesis by (simp add: load_checkins_def)
next
  case (Inr resp)
  show ?thesis
  proof (cases "body resp")
    case (Inl e)
    with Inr show ?thesis by (simp add: load_checkins_def)
  next
    case body: (Inr cd)
    with Inr show ?thesis by (cases "ok resp") (simp_all add: load_checkins_def)
  qed
qed

lemma load_checkins_consistent:
  assumes "\<forall>a \<in> set xs. consistent a"
    and "\<forall>resp cd k c. f = Inr resp \<and> body resp = Inr cd \<and> cd k = Some c
           \<longrightarrow> entry_consistent c"
  shows "\<forall>a \<in> set (load_checkins f xs). consistent a"
proof -
  from load_checkins_cases [of f xs] show ?thesis
  proof
    assume "load_checkins f xs = xs"
    with assms(1) show ?thesis by simp
  next
    assume "\<exists>resp cd. f = Inr resp \<and> body resp = Inr cd
              \<and> load_checkins f xs = apply_checkins cd xs"
    then obtain resp cd where f: "f = Inr resp" "body resp = Inr cd"
      and eq: "load_checkins f xs = apply_checkins cd xs"
      by blast
    from assms(2) f have "\<forall>k c. cd k = Some c \<longrightarrow> entry_consistent c"
      by blast
    with assms(1) show ?thesis
      unfolding eq by (rule apply_checkins_consistent)
  qed
qed

lemma gsheet_loadData_Inr:
  assumes "gsheet_loadData ev sheetUrl csvFetch checkinFetch = Inr roster"
  shows "\<exists>csvText. roster = load_checkins checkinFetch
                     (gsheet_normalizeAttendeeData ev (parseCsvData csvText))"
  using assms
  by (simp add: gsheet_loadData_def split: if_splits sum.splits) blast

lemma csv_loadData_Inr:
  assumes "csv_loadData dataFetch checkinFetch = Inr roster"
  shows "roster = [] \<or>
         (\<exists>resp data. dataFetch = Inr resp \<and> body resp = Inr data
            \<and> roster = load_checkins checkinFetch (csv_normalizeAttendeeData data))"
  using assms
  by (simp add: csv_loadData_def csv_loadData_try_def split: if_splits sum.splits)

lemma supabase_loadData_Inr:
  assumes "supabase_loadData settings query = Inr roster"
  shows "\<exists>reply. query = Inr reply \<and> roster = map supabase_record (db_data reply)"
  using assms
  by (simp add: supabase_loadData_def supabase_normalizeAttendeeData_def
        split: if_splits sum.splits option.splits)

lemma gsheet_loadData_consistent:
  assumes "gsheet_loadData ev sheetUrl csvFetch checkinFetch = Inr roster"
    and "\<forall>resp cd k c. checkinFetch = Inr resp \<and> body resp = Inr cd \<and> cd k = Some c
           \<longrightarrow> entry_consistent c"
  shows "\<forall>a \<in> set roster. consistent a"
proof -
  from gsheet_loadData_Inr [OF assms(1)]
  obtain csvText where r: "roster = load_checkins checkinFetch
                     (gsheet_normalizeAttendeeData ev (parseCsvData csvText))"
    by blast
  have "\<forall>a \<in> set (gsheet_normalizeAttendeeData ev (parseCsvData csvText)). consistent a"
    by (simp add: gsheet_consistent)
  then show ?thesis
    unfolding r using assms(2) by (rule load_checkins_consistent)
qed

lemma csv_loadData_consistent:
  assumes "csv_loadData dataFetch checkinFetch = Inr roster"
    and "\<forall>resp data r. dataFetch = Inr resp \<and> body resp = Inr data \<and> r \<in> set data
           \<longrightarrow> csv_row_consistent r"
    and "\<forall>resp cd k c. checkinFetch = Inr resp \<and> body resp = Inr cd \<and> cd k = Some c
           \<longrightarrow> entry_consistent c"
  shows "\<forall>a \<in> set roster. consistent a"
proof -
  from csv_loadData_Inr [OF assms(1)] show ?thesis
  proof
    assume "roster = []"
    then show ?thesis by simp
  next
    assume "\<exists>resp data. dataFetch = Inr resp \<and> body resp = Inr data
            \<and> roster = load_checkins checkinFetch (csv_normalizeAttendeeData data)"
    then obtain resp data where d: "dataFetch = Inr resp" "body resp = Inr data"
      and r: "roster = load_checkins checkinFetch (csv_normalizeAttendeeData data)"
      by blast
    from assms(2) d have "\<forall>r \<in> set data. csv_row_consistent r"
      by blast
    then have "\<forall>a \<in> set (csv_normalizeAttendeeData data). consistent a"
      by (simp add: csv_consistent)
    then show ?thesis
      unfolding r using assms(3) by (rule load_checkins_consistent)
  qed
qed

lemma supabase_loadData_consistent:
  assumes "supabase_loadData settings query = Inr roster"
    and "\<forall>reply r. query = Inr reply \<and> r \<in> set (db_data reply) \<longrightarrow> db_row_consistent r"
  shows "\<forall>a \<in> set roster. consistent a"
proof -
  from supabase_loadData_Inr [OF assms(1)]
  obtain reply where q: "query = Inr reply" and r: "roster = map supabase_record (db_data reply)"
    by blast
  from assms(2) q have "\<forall>r \<in> set (db_data reply). db_row_consistent r"
    by blast
  then show ?thesis
    unfolding r by (simp add: supabase_record_consistent)
qed

lemma toggleCheckIn_resolved_consistent:
  assumes "findIndex (\<lambda>a. attendee_id a = Some aid) roster = Some i"
    and "updateAttendee aid \<lparr> u_status = status (optimistic_update now (roster ! i)),
            u_checkedInAt = checkedInAt (optimistic_update now (roster ! i)) \<rparr> = Inr d"
  shows "toggleCheckIn updateAttendee now aid roster ! i = optimistic_update now (roster ! i)
        \<and> consistent (toggleCheckIn updateAttendee now aid roster ! i)"
proof -
  from findIndex_Some [OF assms(1)] have lt: "i < length roster"
    by simp
  from assms toggleCheckIn_resolved [of aid roster i updateAttendee now d]
  have "toggleCheckIn updateAttendee now aid roster ! i = optimistic_update now (roster ! i)"
    using lt by simp
  then show ?thesis
    by (simp add: consistent_optimistic)
qed

text \<open>
  C3, as amended. A roster that \<open>loadData\<close> resolves to satisfies the invariant when the
  data behind it does: for the Google Sheets adapter when every entry of the check-in
  map is consistent (the rows themselves are always pending without a time), for the CSV
  adapter when moreover every row of the snapshot is, for the database adapter when every
  row of the table is. After a check-in or an undo that the data source accepts, the
  toggled record satisfies it. Nothing is said about the record after a rollback.
\<close>

theorem roster_consistent_when_data_is:
  "(gsheet_loadData ev sheetUrl csvFetch checkinFetch = Inr gsheetRoster
      \<and> (\<forall>resp cd k c. checkinFetch = Inr resp \<and> body resp = Inr cd \<and> cd k = Some c
             \<longrightarrow> entry_consistent c)
    \<longrightarrow> (\<forall>a \<in> set gsheetRoster. consistent a))
   \<and> (csv_loadData dataFetch checkinFetch = Inr csvRoster
      \<and> (\<forall>resp data r. dataFetch = Inr resp \<and> body resp = Inr data \<and> r \<in> set data
             \<longrightarrow> csv_row_consistent r)
      \<and> (\<forall>resp cd k c. checkinFetch = Inr resp \<and> body resp = Inr cd \<and> cd k = Some c
             \<longrightarrow> entry_consistent c)
    \<longrightarrow> (\<forall>a \<in> set csvRoster. consistent a))
   \<and> (supabase_loadData settings query = Inr dbRoster
      \<and> (\<forall>reply r. query = Inr reply \<and> r \<in> set (db_data reply) \<longrightarrow> db_row_consistent r)
    \<longrightarrow> (\<forall>a \<in> set dbRoster. consistent a))
   \<and> (findIndex (\<lambda>a. attendee_id a = Some aid) roster = Some i
      \<and> updateAttendee aid \<lparr> u_status = status (optimistic_update now (roster ! i)),
            u_checkedInAt = checkedInAt (optimistic_update now (roster ! i)) \<rparr> = Inr d
    \<longrightarrow> toggleCheckIn updateAttendee now aid roster ! i = optimistic_update now (roster ! i)
        \<and> consistent (toggleCheckIn updateAttendee now aid roster ! i))"
proof -
  have g: "gsheet_loadData ev sheetUrl csvFetch checkinFetch = Inr gsheetRoster
      \<and> (\<forall>resp cd k c. checkinFetch = Inr resp \<and> body resp = Inr cd \<and> cd k = Some c
             \<longrightarrow> entry_consistent c)
    \<longrightarrow> (\<forall>a \<in> set gsheetRoster. consistent a)"
    using gsheet_loadData_consistent [of ev sheetUrl csvFetch checkinFetch gsheetRoster]
    by (intro impI) (elim conjE)
  have c: "csv_loadData dataFetch checkinFetch = Inr csvRoster
      \<and> (\<forall>resp data r. dataFetch = Inr resp \<and> body resp = Inr data \<and> r \<in> set data
             \<longrightarrow> csv_row_consistent r)
      \<and> (\<forall>resp cd k c. checkinFetch = Inr resp \<and> body resp = Inr cd \<and> cd k = Some c
             \<longrightarrow> entry_consistent c)
    \<longrightarrow> (\<forall>a \<in> set csvRoster. consistent a)"
    using csv_loadData_consistent [of dataFetch checkinFetch csvRoster]
    by (intro impI) (elim conjE)
  have s: "supabase_loadData settings query = Inr dbRoster
      \<and> (\<forall>reply r. query = Inr reply \<and> r \<in> set (db_data reply) \<longrightarrow> db_row_consistent r)
    \<longrightarrow> (\<forall>a \<in> set dbRoster. consistent a)"
    using supabase_loadData_consistent [of settings query dbRoster]
    by (intro impI) (elim conjE)
  have t: "findIndex (\<lambda>a. attendee_id a = Some aid) roster = Some i
      \<and> updateAttendee aid \<lparr> u_status = status (optimistic_update now (roster ! i)),
            u_checkedInAt = checkedInAt (optimistic_update now (roster ! i)) \<rparr> = Inr d
    \<longrightarrow> toggleCheckIn updateAttendee now aid roster ! i = optimistic_update now (roster ! i)
        \<and> consistent (toggleCheckIn updateAttendee now aid roster ! i)"
    using toggleCheckIn_resolved_consistent [of aid roster i updateAttendee now d]
    by (intro impI) (elim conjE)
  from g c s t show ?thesis
    by (intro conjI)
qed

text \<open>
  C3 as stated fails in the CSV adapter: a row of the snapshot that is checked in
  without a time is copied as it is, and so is the roster \<open>loadData\<close> resolves to.
\<close>

theorem csv_roster_inconsistent_counterexample:
  "csv_loadData (sample_ok [sample_csv_row ''John Doe'' ''checked-in'' None])
      (Inl (Error ''Failed to fetch''))
     = Inr [(sample_attendee (IdStr ''csv_0'') ''John Doe'' ''checked-in'' None)]
   \<and> \<not> consistent (sample_attendee (IdStr ''csv_0'') ''John Doe'' ''checked-in'' None)"
  by (simp add: csv_loadData_def csv_loadData_try_def sample_ok_def sample_csv_row_def
        csv_normalizeAttendeeData_def csv_record_def load_checkins_def str_or_def
        sample_attendee_def consistent_def)

lemma gsheet_load_example:
  "gsheet_loadData None ''https://docs.google.com/spreadsheets/d/abc/edit''
      (sample_ok (''T,G,N,K'' @ [CHR 0x0A] @ ''Table 1,VIP,Ann,VIP Ticket''))
      (sample_ok (sample_checkins ''gsheet_ann_0''
         \<lparr> c_status = ''checked-in'', c_checkedInAt = Some ''2026-01-23T10:00:00Z'' \<rparr>))
   = Inr [sample_attendee (IdStr ''gsheet_ann_0'') ''Ann'' ''checked-in''
            (Some ''2026-01-23T10:00:00Z'')]"
  by code_simp

lemma csv_load_example:
  "csv_loadData (sample_ok [sample_csv_row ''John Doe'' ''pending'' None])
      (sample_ok (sample_checkins ''csv_0''
         \<lparr> c_status = ''checked-in'', c_checkedInAt = Some ''2026-01-23T10:00:00Z'' \<rparr>))
   = Inr [sample_attendee (IdStr ''csv_0'') ''John Doe'' ''checked-in''
            (Some ''2026-01-23T10:00:00Z'')]"
  by code_simp

lemma supabase_load_example:
  "supabase_loadData \<lparr> url = ''https://x.supabase.co'', anonKey = ''key'',
                        tableName = ''event_checkin_attendees'' \<rparr>
      (Inr (DbReply None [sample_row (IdNum 7) ''John Doe'' ''pending'' None]))
   = Inr [sample_attendee (IdNum 7) ''John Doe'' ''pending'' None]"
  by code_simp

lemma sample_checkins_consistent:
  "entry_consistent e \<Longrightarrow>
   \<forall>resp cd k c. (sample_ok (sample_checkins key e) :: checkin_data fetched) = Inr resp
      \<and> body resp = Inr cd \<and> cd k = Some c \<longrightarrow> entry_consistent c"
  by (auto simp: sample_ok_def sample_checkins_def split: if_splits)

text \<open>
  One roster per adapter, each from consistent data, and a check-in that the data source
  accepts.
\<close>

theorem roster_consistent_when_data_is_witness:
  "consistent (sample_attendee (IdStr ''gsheet_ann_0'') ''Ann'' ''checked-in''
                 (Some ''2026-01-23T10:00:00Z''))
   \<and> consistent (sample_attendee (IdStr ''csv_0'') ''John Doe'' ''checked-in''
                 (Some ''2026-01-23T10:00:00Z''))
   \<and> consistent (sample_attendee (IdNum 7) ''John Doe'' ''pending'' None)
   \<and> consistent (toggleCheckIn (\<lambda>i u. Inr () :: js_error + unit) ''2026-01-23T10:05:00Z''
                   (IdStr ''7'') [sample_attendee (IdStr ''7'') ''John Doe'' ''pending'' None] ! 0)"
proof -
  let ?e = "\<lparr> c_status = ''checked-in'', c_checkedInAt = Some ''2026-01-23T10:00:00Z'' \<rparr>"
  have e: "entry_consistent ?e"
    by (simp add: entry_consistent_def)
  have rows: "\<forall>resp data r. (sample_ok [sample_csv_row ''John Doe'' ''pending'' None]
                                 :: csv_row list fetched) = Inr resp
                \<and> body resp = Inr data \<and> r \<in> set data \<longrightarrow> csv_row_consistent r"
    by (auto simp: sample_ok_def sample_csv_row_def csv_row_consistent_def str_or_def)
  have dbrows: "\<forall>reply r. (Inr (DbReply None [sample_row (IdNum 7) ''John Doe'' ''pending'' None])
                              :: js_error + db_row list db_reply) = Inr reply
                  \<and> r \<in> set (db_data reply) \<longrightarrow> db_row_consistent r"
    by (auto simp: sample_row_def db_row_consistent_def str_or_def)
  have found: "findIndex (\<lambda>a. attendee_id a = Some (IdStr ''7''))
                 [sample_attendee (IdStr ''7'') ''John Doe'' ''pending'' None] = Some 0"
    by (simp add: sample_attendee_def)
  note g_imp = roster_consistent_when_data_is [THEN conjunct1]
  note c_imp = roster_consistent_when_data_is [THEN conjunct2, THEN conjunct1]
  note s_imp = roster_consistent_when_data_is [THEN conjunct2, THEN conjunct2, THEN conjunct1]
  note t_imp = roster_consistent_when_data_is [THEN conjunct2, THEN conjunct2, THEN conjunct2]
  from mp [OF g_imp conjI [OF gsheet_load_example
              sample_checkins_consistent [OF e, of "''gsheet_ann_0''"]]]
  have g: "consistent (sample_attendee (IdStr ''gsheet_ann_0'') ''Ann'' ''checked-in''
                 (Some ''2026-01-23T10:00:00Z''))"
    by simp
  from mp [OF c_imp conjI [OF csv_load_example
              conjI [OF rows sample_checkins_consistent [OF e, of "''csv_0''"]]]]
  have c: "consistent (sample_attendee (IdStr ''csv_0'') ''John Doe'' ''checked-in''
                 (Some ''2026-01-23T10:00:00Z''))"
    by simp
  from mp [OF s_imp conjI [OF supabase_load_example dbrows]]
  have s: "consistent (sample_attendee (IdNum 7) ''John Doe'' ''pending'' None)"
    by simp
  have upd: "(\<lambda>i u. Inr () :: js_error + unit) (IdStr ''7'')
       \<lparr> u_status = status (optimistic_update ''2026-01-23T10:05:00Z''
            ([sample_attendee (IdStr ''7'') ''John Doe'' ''pending'' None] ! 0)),
         u_checkedInAt = checkedInAt (optimistic_update ''2026-01-23T10:05:00Z''
            ([sample_attendee (IdStr ''7'') ''John Doe'' ''pending'' None] ! 0)) \<rparr> = Inr ()"
    by simp
  from mp [OF t_imp conjI [OF found upd]]
  have t: "consistent (toggleCheckIn (\<lambda>i u. Inr () :: js_error + unit) ''2026-01-23T10:05:00Z''
                   (IdStr ''7'') [sample_attendee (IdStr ''7'') ''John Doe'' ''pending'' None] ! 0)"
    by (rule conjunct2)
  from g c s t show ?thesis
    by (intro conjI)
qed


section \<open>Outcomes of updateAttendee\<close>

lemma checkin_sync_try_failed:
  assumes "request_failed (post \<lparr> req_attendeeId = aid, req_status = u_status upd,
                                  req_checkedInAt = u_checkedInAt upd \<rparr>)"
  shows "isl (checkin_sync_try post aid upd)"
proof (cases "post \<lparr> req_attendeeId = aid, req_status = u_status upd,
                     req_checkedInAt = u_checkedInAt upd \<rparr>")
  case (Inl e)
  then show ?thesis by (simp add: checkin_sync_try_def)
next
  case (Inr resp)
  show ?thesis
  proof (cases "ok resp")
    case False
    with Inr show ?thesis by (simp add: checkin_sync_try_def)
  next
    case True
    with Inr assms have "isl (body resp)"
      by (simp add: request_failed_def)
    with Inr True show ?thesis
      by (cases "body resp") (simp_all add: checkin_sync_try_def)
  qed
qed

lemma checkin_sync_try_ok:
  assumes "\<not> request_failed (post \<lparr> req_attendeeId = aid, req_status = u_status upd,
                                    req_checkedInAt = u_checkedInAt upd \<rparr>)"
  shows "\<exists>result. checkin_sync_try post aid upd = Inr (ServerResult result)"
proof (cases "post \<lparr> req_attendeeId = aid, req_status = u_status upd,
                     req_checkedInAt = u_checkedInAt upd \<rparr>")
  case (Inl e)
  with assms show ?thesis by (simp add: request_failed_def)
next
  case (Inr resp)
  with assms have ok: "ok resp" and b: "\<not> isl (body resp)"
    by (simp_all add: request_failed_def split: if_splits)
  from b obtain result where "body resp = Inr result"
    by (cases "body resp") simp_all
  with Inr ok show ?thesis
    by (simp add: checkin_sync_try_def)
qed

lemma csv_updateAttendee_resolves: "\<exists>res. csv_updateAttendee post aid upd = Inr res"
  by (cases "checkin_sync_try post aid upd") (simp_all add: csv_updateAttendee_def)

lemma csv_updateAttendee_fallback:
  "isl (checkin_sync_try post aid upd) \<Longrightarrow> csv_updateAttendee post aid upd = Inr SuccessTrue"
  by (cases "checkin_sync_try post aid upd") (simp_all add: csv_updateAttendee_def)

lemma gsheet_updateAttendee_eq:
  "gsheet_updateAttendee post aid upd = checkin_sync_try post aid upd"
  by (cases "checkin_sync_try post aid upd") (simp_all add: gsheet_updateAttendee_def)

lemma supabase_updateAttendee_cases:
  "supabase_updateAttendee settings update_eq aid upd =
     (if \<not> supabase_client settings then Inl (Error ''Supabase not configured'')
      else case update_eq aid upd of
             Inl e \<Rightarrow> Inl e
           | Inr reply \<Rightarrow> (case db_error reply of Some e \<Rightarrow> Inl e | None \<Rightarrow> Inr ()))"
  by (simp add: supabase_updateAttendee_def)

text \<open>
  C4, as amended. The CSV adapter's \<open>updateAttendee\<close> never rejects: when the request to
  the check-in endpoint fails it resolves with \<^verbatim>\<open>{ success: true }\<close>. The Google Sheets
  adapter's rejects on every failed request. When the response is ok and its body is
  read, both resolve to that body, whatever it says. The database adapter's rejects when the client is not configured,
  when the query rejects and when the query answers an error, and resolves otherwise.
\<close>

theorem updateAttendee_rejects_except_csv:
  "(\<exists>res. csv_updateAttendee post aid upd = Inr res)
   \<and> (request_failed (post \<lparr> req_attendeeId = aid, req_status = u_status upd,
                             req_checkedInAt = u_checkedInAt upd \<rparr>)
        \<longrightarrow> csv_updateAttendee post aid upd = Inr SuccessTrue
          \<and> isl (gsheet_updateAttendee post aid upd))
   \<and> (post \<lparr> req_attendeeId = aid, req_status = u_status upd,
              req_checkedInAt = u_checkedInAt upd \<rparr> = Inr resp
        \<and> ok resp \<and> body resp = Inr result
        \<longrightarrow> csv_updateAttendee post aid upd = Inr (ServerResult result)
          \<and> gsheet_updateAttendee post aid upd = Inr (ServerResult result))
   \<and> (\<not> supabase_client settings
        \<longrightarrow> supabase_updateAttendee settings update_eq aid upd
              = Inl (Error ''Supabase not configured''))
   \<and> (supabase_client settings \<and> update_eq aid upd = Inl e
        \<longrightarrow> supabase_updateAttendee settings update_eq aid upd = Inl e)
   \<and> (supabase_client settings \<and> update_eq aid upd = Inr reply \<and> db_error reply = Some e
        \<longrightarrow> supabase_updateAttendee settings update_eq aid upd = Inl e)
   \<and> (supabase_client settings \<and> update_eq aid upd = Inr reply \<and> db_error reply = None
        \<longrightarrow> supabase_updateAttendee settings update_eq aid upd = Inr ())"
proof (intro conjI impI)
  show "\<exists>res. csv_updateAttendee post aid upd = Inr res"
    by (rule csv_updateAttendee_resolves)
next
  assume "request_failed (post \<lparr> req_attendeeId = aid, req_status = u_status upd,
                             req_checkedInAt = u_checkedInAt upd \<rparr>)"
  then have f: "isl (checkin_sync_try post aid upd)"
    by (rule checkin_sync_try_failed)
  then show "csv_updateAttendee post aid upd = Inr SuccessTrue"
    by (rule csv_updateAttendee_fallback)
  from f show "isl (gsheet_updateAttendee post aid upd)"
    by (simp add: gsheet_updateAttendee_eq)
next
  assume "post \<lparr> req_attendeeId = aid, req_status = u_status upd,
              req_checkedInAt = u_checkedInAt upd \<rparr> = Inr resp
        \<and> ok resp \<and> body resp = Inr result"
  then have r: "checkin_sync_try post aid upd = Inr (ServerResult result)"
    by (simp add: checkin_sync_try_def)
  then show "csv_updateAttendee post aid upd = Inr (ServerResult result)"
    by (simp add: csv_updateAttendee_def)
  from r show "gsheet_updateAttendee post aid upd = Inr (ServerResult result)"
    by (simp add: gsheet_updateAttendee_def)
next
  assume "\<not> supabase_client settings"
  then show "supabase_updateAttendee settings update_eq aid upd
              = Inl (Error ''Supabase not configured'')"
    by (simp add: supabase_updateAttendee_cases)
next
  assume "supabase_client settings \<and> update_eq aid upd = Inl e"
  then show "supabase_updateAttendee settings update_eq aid upd = Inl e"
    by (simp add: supabase_updateAttendee_cases)
next
  assume "supabase_client settings \<and> update_eq aid upd = Inr reply \<and> db_error reply = Some e"
  then show "supabase_updateAttendee settings update_eq aid upd = Inl e"
    by (simp add: supabase_updateAttendee_cases)
next
  assume "supabase_client settings \<and> update_eq aid upd = Inr reply \<and> db_error reply = None"
  then show "supabase_updateAttendee settings update_eq aid upd = Inr ()"
    by (simp add: supabase_updateAttendee_cases)
qed

text \<open>
  C4 as stated fails in the CSV adapter: a server error and a network failure both end
  in a resolved promise that reports success.
\<close>

theorem csv_updateAttendee_swallows_counterexample:
  "csv_updateAttendee ((\<lambda>req. Inr (Response False 500 ''Internal Server Error''
                                 (Inl (Error ''Unexpected token''))))
                         :: checkin_request \<Rightarrow> unit fetched)
      (IdStr ''csv_0'') \<lparr> u_status = ''checked-in'', u_checkedInAt = Some ''2026-01-23T10:00:00Z'' \<rparr>
     = Inr SuccessTrue
   \<and> csv_updateAttendee ((\<lambda>req. Inl (Error ''Failed to fetch''))
                         :: checkin_request \<Rightarrow> unit fetched)
      (IdStr ''csv_0'') \<lparr> u_status = ''checked-in'', u_checkedInAt = Some ''2026-01-23T10:00:00Z'' \<rparr>
     = Inr SuccessTrue"
  by (simp add: csv_updateAttendee_def checkin_sync_try_def)

text \<open>
  A failed and an accepted request to the check-in endpoint, and the four cases of the
  database adapter.
\<close>

theorem updateAttendee_rejects_except_csv_witness:
  "csv_updateAttendee ((\<lambda>req. Inr (Response False 500 ''Internal Server Error''
                                 (Inl (Error ''Unexpected token''))))
                         :: checkin_request \<Rightarrow> unit fetched)
      (IdStr ''gsheet_ann_0'') \<lparr> u_status = ''checked-in'', u_checkedInAt = Some ''2026-01-23T10:00:00Z'' \<rparr>
     = Inr SuccessTrue
   \<and> isl (gsheet_updateAttendee ((\<lambda>req. Inr (Response False 500 ''Internal Server Error''
                                 (Inl (Error ''Unexpected token''))))
                         :: checkin_request \<Rightarrow> unit fetched)
      (IdStr ''gsheet_ann_0'') \<lparr> u_status = ''checked-in'', u_checkedInAt = Some ''2026-01-23T10:00:00Z'' \<rparr>)
   \<and> csv_updateAttendee (\<lambda>req. sample_ok ''success: false'')
      (IdStr ''gsheet_ann_0'') \<lparr> u_status = ''checked-in'', u_checkedInAt = Some ''2026-01-23T10:00:00Z'' \<rparr>
       = Inr (ServerResult ''success: false'')
   \<and> gsheet_updateAttendee (\<lambda>req. sample_ok ''success: false'')
      (IdStr ''gsheet_ann_0'') \<lparr> u_status = ''checked-in'', u_checkedInAt = Some ''2026-01-23T10:00:00Z'' \<rparr>
       = Inr (ServerResult ''success: false'')
   \<and> supabase_updateAttendee \<lparr> url = [], anonKey = [], tableName = ''attendees'' \<rparr>
        (\<lambda>i u. Inr (DbReply None ())) (IdNum 7)
        \<lparr> u_status = ''checked-in'', u_checkedInAt = Some ''2026-01-23T10:00:00Z'' \<rparr>
     = Inl (Error ''Supabase not configured'')
   \<and> supabase_updateAttendee \<lparr> url = ''https://x.supabase.co'', anonKey = ''key'',
                                tableName = ''attendees'' \<rparr>
        (\<lambda>i u. Inl (Error ''Failed to fetch'')) (IdNum 7)
        \<lparr> u_status = ''checked-in'', u_checkedInAt = Some ''2026-01-23T10:00:00Z'' \<rparr>
     = Inl (Error ''Failed to fetch'')
   \<and> supabase_updateAttendee \<lparr> url = ''https://x.supabase.co'', anonKey = ''key'',
                                tableName = ''attendees'' \<rparr>
        (\<lambda>i u. Inr (DbReply (Some (Error ''permission denied'')) ())) (IdNum 7)
        \<lparr> u_status = ''checked-in'', u_checkedInAt = Some ''2026-01-23T10:00:00Z'' \<rparr>
     = Inl (Error ''permission denied'')
   \<and> supabase_updateAttendee \<lparr> url = ''https://x.supabase.co'', anonKey = ''key'',
                                tableName = ''attendees'' \<rparr>
        (\<lambda>i u. Inr (DbReply None ())) (IdNum 7)
        \<lparr> u_status = ''checked-in'', u_checkedInAt = Some ''2026-01-23T10:00:00Z'' \<rparr>
     = Inr ()"
proof -
  let ?upd = "\<lparr> u_status = ''checked-in'', u_checkedInAt = Some ''2026-01-23T10:00:00Z'' \<rparr>"
  let ?on = "\<lparr> url = ''https://x.supabase.co'', anonKey = ''key'', tableName = ''attendees'' \<rparr>"
  let ?off = "\<lparr> url = [], anonKey = [], tableName = ''attendees'' \<rparr>"
  let ?bad = "(\<lambda>req. Inr (Response False 500 ''Internal Server Error''
                        (Inl (Error ''Unexpected token''))))
                :: checkin_request \<Rightarrow> unit fetched"
  let ?good = "(\<lambda>req. sample_ok ''success: false'') :: checkin_request \<Rightarrow> string fetched"
  have bad: "request_failed (?bad \<lparr> req_attendeeId = IdStr ''gsheet_ann_0'',
                req_status = u_status ?upd, req_checkedInAt = u_checkedInAt ?upd \<rparr>)"
    by (simp add: request_failed_def)
  have good: "?good \<lparr> req_attendeeId = IdStr ''gsheet_ann_0'',
                req_status = u_status ?upd, req_checkedInAt = u_checkedInAt ?upd \<rparr>
                = Inr (Response True 200 ''OK'' (Inr ''success: false''))
              \<and> ok (Response True 200 ''OK'' (Inr ''success: false'') :: string response)
              \<and> body (Response True 200 ''OK'' (Inr ''success: false'') :: string response)
                  = Inr ''success: false''"
    by (simp add: sample_ok_def)
  have on: "supabase_client ?on" and off: "\<not> supabase_client ?off"
    by (simp_all add: supabase_client_def)
  note failed = updateAttendee_rejects_except_csv
    [where post = ?bad and aid = "IdStr ''gsheet_ann_0''" and upd = ?upd,
     THEN conjunct2, THEN conjunct1, THEN mp, OF bad]
  note passed = updateAttendee_rejects_except_csv
    [where post = ?good and aid = "IdStr ''gsheet_ann_0''" and upd = ?upd
       and resp = "Response True 200 ''OK'' (Inr ''success: false'')"
       and result = "''success: false''",
     THEN conjunct2, THEN conjunct2, THEN conjunct1, THEN mp, OF good]
  note unconfigured = updateAttendee_rejects_except_csv
    [where aid = "IdNum 7" and upd = ?upd and settings = ?off
       and update_eq = "\<lambda>i u. Inr (DbReply None ())",
     THEN conjunct2, THEN conjunct2, THEN conjunct2, THEN conjunct1, THEN mp, OF off]
  have rejected: "supabase_updateAttendee ?on (\<lambda>i u. Inl (Error ''Failed to fetch''))
                    (IdNum 7) ?upd = Inl (Error ''Failed to fetch'')"
    by (rule updateAttendee_rejects_except_csv
          [where aid = "IdNum 7" and upd = ?upd and settings = ?on,
           THEN conjunct2, THEN conjunct2, THEN conjunct2, THEN conjunct2, THEN conjunct1,
           THEN mp])
       (simp add: on)
  have refused: "supabase_updateAttendee ?on
                    (\<lambda>i u. Inr (DbReply (Some (Error ''permission denied'')) ()))
                    (IdNum 7) ?upd = Inl (Error ''permission denied'')"
    by (rule updateAttendee_rejects_except_csv
          [where aid = "IdNum 7" and upd = ?upd and settings = ?on
             and reply = "DbReply (Some (Error ''permission denied'')) ()",
           THEN conjunct2, THEN conjunct2, THEN conjunct2, THEN conjunct2, THEN conjunct2,
           THEN conjunct1, THEN mp])
       (simp add: on)
  have stored: "supabase_updateAttendee ?on (\<lambda>i u. Inr (DbReply None ())) (IdNum 7) ?upd
                  = Inr ()"
    by (rule updateAttendee_rejects_except_csv
          [where aid = "IdNum 7" and upd = ?upd and settings = ?on
             and reply = "DbReply None ()",
           THEN conjunct2, THEN conjunct2, THEN conjunct2, THEN conjunct2, THEN conjunct2,
           THEN conjunct2, THEN mp])
       (simp add: on)
  from failed passed unconfigured rejected refused stored show ?thesis
    by (intro conjI) (erule conjunct1, erule conjunct2, erule conjunct1, erule conjunct2,
        assumption+)
qed


section \<open>Outcomes of loadData\<close>

lemma csv_loadData_resolves: "\<exists>roster. csv_loadData dataFetch checkinFetch = Inr roster"
  by (cases "csv_loadData_try dataFetch checkinFetch") (simp_all add: csv_loadData_def)

lemma csv_loadData_try_failed:
  assumes "request_failed dataFetch"
  shows "isl (csv_loadData_try dataFetch checkinFetch)"
proof (cases dataFetch)
  case (Inl e)
  then show ?thesis by (simp add: csv_loadData_try_def)
next
  case (Inr resp)
  show ?thesis
  proof (cases "ok resp")
    case False
    with Inr show ?thesis by (simp add: csv_loadData_try_def)
  next
    case True
    with Inr assms have "isl (body resp)"
      by (simp add: request_failed_def)
    with Inr True show ?thesis
      by (cases "body resp") (simp_all add: csv_loadData_try_def)
  qed
qed

lemma csv_loadData_failed:
  assumes "request_failed dataFetch"
  shows "csv_loadData dataFetch checkinFetch = Inr []"
  using csv_loadData_try_failed [OF assms, of checkinFetch]
  by (cases "csv_loadData_try dataFetch checkinFetch") (simp_all add: csv_loadData_def)

text \<open>
  C5, as amended. The Google Sheets adapter's \<open>loadData\<close> rejects with its configuration
  error when the sheet URL is missing, with the error of \<^verbatim>\<open>fetch\<close> when the request
  rejects, with an HTTP error when the status is not ok, with the read error when the
  body cannot be read; a body it reads is always parsed. The database adapter's rejects
  with its configuration error when the URL or the key is missing, and with the query's
  error when the query rejects or answers one. The CSV adapter's \<open>loadData\<close> never
  rejects, and resolves to the empty roster when the snapshot request fails.
\<close>

theorem loadData_failure_outcomes:
  "(sheetUrl = [] \<longrightarrow> gsheet_loadData ev sheetUrl csvFetch checkinFetch
                         = Inl (Error ''Google Sheets URL not configured''))
   \<and> (sheetUrl \<noteq> [] \<and> csvFetch = Inl e
        \<longrightarrow> gsheet_loadData ev sheetUrl csvFetch checkinFetch = Inl e)
   \<and> (sheetUrl \<noteq> [] \<and> csvFetch = Inr resp \<and> \<not> ok resp
        \<longrightarrow> gsheet_loadData ev sheetUrl csvFetch checkinFetch
             = Inl (Error (''HTTP '' @ show_nat (http_status resp) @ '': '' @ statusText resp)))
   \<and> (sheetUrl \<noteq> [] \<and> csvFetch = Inr resp \<and> ok resp \<and> body resp = Inl e
        \<longrightarrow> gsheet_loadData ev sheetUrl csvFetch checkinFetch = Inl e)
   \<and> (sheetUrl \<noteq> [] \<and> csvFetch = Inr resp \<and> ok resp \<and> body resp = Inr csvText
        \<longrightarrow> gsheet_loadData ev sheetUrl csvFetch checkinFetch
             = Inr (load_checkins checkinFetch
                      (gsheet_normalizeAttendeeData ev (parseCsvData csvText))))
   \<and> (\<not> supabase_client settings
        \<longrightarrow> supabase_loadData settings query
             = Inl (Error ''Supabase not configured. Please provide URL and API key.''))
   \<and> (supabase_client settings \<and> query = Inl e \<longrightarrow> supabase_loadData settings query = Inl e)
   \<and> (supabase_client settings \<and> query = Inr reply \<and> db_error reply = Some e
        \<longrightarrow> supabase_loadData settings query = Inl e)
   \<and> (\<exists>roster. csv_loadData dataFetch checkinFetch = Inr roster)
   \<and> (request_failed dataFetch \<longrightarrow> csv_loadData dataFetch checkinFetch = Inr [])"
proof (intro conjI impI)
  assume "sheetUrl = []"
  then show "gsheet_loadData ev sheetUrl csvFetch checkinFetch
               = Inl (Error ''Google Sheets URL not configured'')"
    by (simp add: gsheet_loadData_def)
next
  assume "sheetUrl \<noteq> [] \<and> csvFetch = Inl e"
  then show "gsheet_loadData ev sheetUrl csvFetch checkinFetch = Inl e"
    by (simp add: gsheet_loadData_def)
next
  assume "sheetUrl \<noteq> [] \<and> csvFetch = Inr resp \<and> \<not> ok resp"
  then show "gsheet_loadData ev sheetUrl csvFetch checkinFetch
             = Inl (Error (''HTTP '' @ show_nat (http_status resp) @ '': '' @ statusText resp))"
    by (simp add: gsheet_loadData_def)
next
  assume "sheetUrl \<noteq> [] \<and> csvFetch = Inr resp \<and> ok resp \<and> body resp = Inl e"
  then show "gsheet_loadData ev sheetUrl csvFetch checkinFetch = Inl e"
    by (simp add: gsheet_loadData_def)
next
  assume "sheetUrl \<noteq> [] \<and> csvFetch = Inr resp \<and> ok resp \<and> body resp = Inr csvText"
  then show "gsheet_loadData ev sheetUrl csvFetch checkinFetch
             = Inr (load_checkins checkinFetch
                      (gsheet_normalizeAttendeeData ev (parseCsvData csvText)))"
    by (simp add: gsheet_loadData_def)
next
  assume "\<not> supabase_client settings"
  then show "supabase_loadData settings query
             = Inl (Error ''Supabase not configured. Please provide URL and API key.'')"
    by (simp add: supabase_loadData_def)
next
  assume "supabase_client settings \<and> query = Inl e"
  then show "supabase_loadData settings query = Inl e"
    by (simp add: supabase_loadData_def)
next
  assume "supabase_client settings \<and> query = Inr reply \<and> db_error reply = Some e"
  then show "supabase_loadData settings query = Inl e"
    by (simp add: supabase_loadData_def)
next
  show "\<exists>roster. csv_loadData dataFetch checkinFetch = Inr roster"
    by (rule csv_loadData_resolves)
next
  assume "request_failed dataFetch"
  then show "csv_loadData dataFetch checkinFetch = Inr []"
    by (rule csv_loadData_failed)
qed

lemma not_a_sheet_example: "parseCsvData ''<html>Sign in</html>'' = []"
  by code_simp

text \<open>
  C5 as stated fails: in the CSV adapter a network failure and a body that is not JSON
  both give a successful empty roster, and in the Google Sheets adapter so does a body
  that is not a sheet.
\<close>

theorem csv_loadData_empty_on_failure_counterexample:
  "csv_loadData (Inl (Error ''Failed to fetch'')) (Inl (Error ''Failed to fetch'')) = Inr []
   \<and> csv_loadData (Inr (Response True 200 ''OK'' (Inl (Error ''Unexpected token <''))))
        (Inl (Error ''Failed to fetch'')) = Inr []
   \<and> gsheet_loadData None ''https://docs.google.com/spreadsheets/d/abc/edit''
        (sample_ok ''<html>Sign in</html>'') (Inl (Error ''Failed to fetch'')) = Inr []"
  by (simp add: csv_loadData_def csv_loadData_try_def gsheet_loadData_def sample_ok_def
        not_a_sheet_example gsheet_normalizeAttendeeData_def load_checkins_def)

text \<open>One input for each failure the theorem names.\<close>

theorem loadData_failure_outcomes_witness:
  "gsheet_loadData None [] (sample_ok ''a,b,c'') (Inl (Error ''Failed to fetch''))
     = Inl (Error ''Google Sheets URL not configured'')
   \<and> gsheet_loadData None ''https://sheet'' (Inl (Error ''Failed to fetch''))
        (Inl (Error ''Failed to fetch'')) = Inl (Error ''Failed to fetch'')
   \<and> gsheet_loadData None ''https://sheet''
        (Inr (Response False 404 ''Not Found'' (Inr ''gone''))) (Inl (Error ''Failed to fetch''))
     = Inl (Error (''HTTP '' @ show_nat 404 @ '': '' @ ''Not Found''))
   \<and> gsheet_loadData None ''https://sheet''
        (Inr (Response True 200 ''OK'' (Inl (Error ''body stream interrupted''))))
        (Inl (Error ''Failed to fetch'')) = Inl (Error ''body stream interrupted'')
   \<and> gsheet_loadData None ''https://sheet'' (sample_ok ''<html>Sign in</html>'')
        (Inl (Error ''Failed to fetch''))
     = Inr (load_checkins (Inl (Error ''Failed to fetch''))
              (gsheet_normalizeAttendeeData None (parseCsvData ''<html>Sign in</html>'')))
   \<and> supabase_loadData \<lparr> url = [], anonKey = [], tableName = ''attendees'' \<rparr>
        (Inr (DbReply None []))
     = Inl (Error ''Supabase not configured. Please provide URL and API key.'')
   \<and> supabase_loadData \<lparr> url = ''https://x.supabase.co'', anonKey = ''key'',
                          tableName = ''attendees'' \<rparr> (Inl (Error ''Failed to fetch''))
     = Inl (Error ''Failed to fetch'')
   \<and> supabase_loadData \<lparr> url = ''https://x.supabase.co'', anonKey = ''key'',
                          tableName = ''attendees'' \<rparr>
        (Inr (DbReply (Some (Error ''relation does not exist'')) []))
     = Inl (Error ''relation does not exist'')
   \<and> csv_loadData (Inr (Response False 500 ''Internal Server Error'' (Inr [])))
        (Inl (Error ''Failed to fetch'')) = Inr []"
proof -
  let ?off = "\<lparr> url = [], anonKey = [], tableName = ''attendees'' \<rparr>"
  let ?on = "\<lparr> url = ''https://x.supabase.co'', anonKey = ''key'', tableName = ''attendees'' \<rparr>"
  let ?down = "Inl (Error ''Failed to fetch'') :: checkin_data fetched"
  have on: "supabase_client ?on" and off: "\<not> supabase_client ?off"
    by (simp_all add: supabase_client_def)
  have g1: "gsheet_loadData None [] (sample_ok ''a,b,c'') ?down
              = Inl (Error ''Google Sheets URL not configured'')"
    by (rule loadData_failure_outcomes
          [where sheetUrl = "[]" and ev = None and csvFetch = "sample_ok ''a,b,c''"
             and checkinFetch = ?down,
           THEN conjunct1, THEN mp]) simp
  have g2: "gsheet_loadData None ''https://sheet'' (Inl (Error ''Failed to fetch'')) ?down
              = Inl (Error ''Failed to fetch'')"
    by (rule loadData_failure_outcomes
          [where sheetUrl = "''https://sheet''" and ev = None
             and csvFetch = "Inl (Error ''Failed to fetch'')" and checkinFetch = ?down
             and e = "Error ''Failed to fetch''",
           THEN conjunct2, THEN conjunct1, THEN mp]) simp
  have g3: "gsheet_loadData None ''https://sheet''
              (Inr (Response False 404 ''Not Found'' (Inr ''gone''))) ?down
              = Inl (Error (''HTTP '' @ show_nat 404 @ '': '' @ ''Not Found''))"
    using loadData_failure_outcomes
          [where sheetUrl = "''https://sheet''" and ev = None
             and csvFetch = "Inr (Response False 404 ''Not Found'' (Inr ''gone''))"
             and checkinFetch = ?down
             and resp = "Response False 404 ''Not Found'' (Inr ''gone'')",
           THEN conjunct2, THEN conjunct2, THEN conjunct1]
    by simp
  have g4: "gsheet_loadData None ''https://sheet''
              (Inr (Response True 200 ''OK'' (Inl (Error ''body stream interrupted'')))) ?down
              = Inl (Error ''body stream interrupted'')"
    using loadData_failure_outcomes
          [where sheetUrl = "''https://sheet''" and ev = None
             and csvFetch = "Inr (Response True 200 ''OK'' (Inl (Error ''body stream interrupted'')))"
             and checkinFetch = ?down and e = "Error ''body stream interrupted''"
             and resp = "Response True 200 ''OK'' (Inl (Error ''body stream interrupted''))",
           THEN conjunct2, THEN conjunct2, THEN conjunct2, THEN conjunct1]
    by simp
  have g5: "gsheet_loadData None ''https://sheet'' (sample_ok ''<html>Sign in</html>'') ?down
     = Inr (load_checkins ?down
              (gsheet_normalizeAttendeeData None (parseCsvData ''<html>Sign in</html>'')))"
    using loadData_failure_outcomes
          [where sheetUrl = "''https://sheet''" and ev = None
             and csvFetch = "sample_ok ''<html>Sign in</html>''"
             and checkinFetch = ?down and csvText = "''<html>Sign in</html>''"
             and resp = "Response True 200 ''OK'' (Inr ''<html>Sign in</html>'')",
           THEN conjunct2, THEN conjunct2, THEN conjunct2, THEN conjunct2, THEN conjunct1]
    by (simp add: sample_ok_def)
  have s1: "supabase_loadData ?off (Inr (DbReply None []))
     = Inl (Error ''Supabase not configured. Please provide URL and API key.'')"
    by (rule loadData_failure_outcomes
          [where settings = ?off and query = "Inr (DbReply None [])",
           THEN conjunct2, THEN conjunct2, THEN conjunct2, THEN conjunct2, THEN conjunct2,
           THEN conjunct1, THEN mp]) (rule off)
  have s2: "supabase_loadData ?on (Inl (Error ''Failed to fetch'')) = Inl (Error ''Failed to fetch'')"
    by (rule loadData_failure_outcomes
          [where settings = ?on and query = "Inl (Error ''Failed to fetch'')"
             and e = "Error ''Failed to fetch''",
           THEN conjunct2, THEN conjunct2, THEN conjunct2, THEN conjunct2, THEN conjunct2,
           THEN conjunct2, THEN conjunct1, THEN mp]) (simp add: on)
  have s3: "supabase_loadData ?on (Inr (DbReply (Some (Error ''relation does not exist'')) []))
     = Inl (Error ''relation does not exist'')"
    by (rule loadData_failure_outcomes
          [where settings = ?on
             and query = "Inr (DbReply (Some (Error ''relation does not exist'')) [])"
             and reply = "DbReply (Some (Error ''relation does not exist'')) []"
             and e = "Error ''relation does not exist''",
           THEN conjunct2, THEN conjunct2, THEN conjunct2, THEN conjunct2, THEN conjunct2,
           THEN conjunct2, THEN conjunct2, THEN conjunct1, THEN mp]) (simp add: on)
  have c1: "csv_loadData (Inr (Response False 500 ''Internal Server Error'' (Inr []))) ?down
              = Inr []"
    by (rule loadData_failure_outcomes
          [where dataFetch = "Inr (Response False 500 ''Internal Server Error'' (Inr []))"
             and checkinFetch = ?down,
           THEN conjunct2, THEN conjunct2, THEN conjunct2, THEN conjunct2, THEN conjunct2,
           THEN conjunct2, THEN conjunct2, THEN conjunct2, THEN conjunct2, THEN mp])
       (simp add: request_failed_def)
  from g1 g2 g3 g4 g5 s1 s2 s3 c1 show ?thesis
    by (intro conjI)
qed


section \<open>Switching the data source while a poll is in flight\<close>

lemma setupPolling_frame:
  "attendees (setupPolling st) = attendees st \<and> currentSource (setupPolling st) = currentSource st"
  by (cases "currentSource st") (simp_all add: setupPolling_def Let_def)

lemma switch_begin_Some:
  assumes "switch_begin newType settings confirmed st = Some st'"
  shows "confirmed \<and> currentSource st \<noteq> Some newType
         \<and> attendees st' = [] \<and> currentSource st' = Some newType"
proof -
  from assms have c: "confirmed" and n: "currentSource st \<noteq> Some newType"
    by (simp_all add: switch_begin_def split: if_splits)
  with assms have st': "st' = setupPolling (loadDataSource (setDataSource newType settings
                   (st\<lparr>attendees := [], filteredAttendees := [], pollingInterval := None\<rparr>)))"
    by (simp add: switch_begin_def)
  have "attendees st' = []"
    unfolding st' by (simp add: setupPolling_frame loadDataSource_def setDataSource_def)
  moreover have "currentSource st' = Some newType"
    unfolding st' by (simp add: setupPolling_frame loadDataSource_def setDataSource_def)
  ultimately show ?thesis
    using c n by simp
qed

lemma poll_settled_data:
  "data \<noteq> [] \<Longrightarrow> attendees (poll_settled (Inr data) st) = data"
  by (simp add: poll_settled_def handleDataSourceUpdate_def)

lemma poll_settled_nothing:
  "poll_settled (Inr []) st = st" "poll_settled (Inl e) st = st"
  by (simp_all add: poll_settled_def)

text \<open>
  C2, as amended. A confirmed switch clears the roster and makes the new adapter the
  current one. A polling response that settles after the switch, and after the first
  load of the new adapter, replaces the roster by its data when the data is non-empty,
  whichever adapter it came from; it leaves the state as it is only when its data is
  empty or the request rejected. The manager keeps no generation counter.
\<close>

theorem late_response_replaces_roster:
  "switch_begin newType settings confirmed st = Some st'
   \<longrightarrow> attendees st' = [] \<and> currentSource st' = Some newType
     \<and> (data \<noteq> [] \<longrightarrow>
          attendees (poll_settled (Inr data) (switch_loaded loaded st')) = data)
     \<and> poll_settled (Inr []) (switch_loaded loaded st') = switch_loaded loaded st'
     \<and> poll_settled (Inl e) (switch_loaded loaded st') = switch_loaded loaded st'"
proof
  assume "switch_begin newType settings confirmed st = Some st'"
  from switch_begin_Some [OF this]
  have "attendees st' = []" and "currentSource st' = Some newType"
    by simp_all
  then show "attendees st' = [] \<and> currentSource st' = Some newType
     \<and> (data \<noteq> [] \<longrightarrow>
          attendees (poll_settled (Inr data) (switch_loaded loaded st')) = data)
     \<and> poll_settled (Inr []) (switch_loaded loaded st') = switch_loaded loaded st'
     \<and> poll_settled (Inl e) (switch_loaded loaded st') = switch_loaded loaded st'"
    by (simp add: poll_settled_data poll_settled_nothing)
qed

lemma switch_example:
  "switch_begin Googlesheets None True
      (sample_manager [sample_attendee (IdStr ''csv_0'') ''John Doe'' ''pending'' None])
   = Some \<lparr> attendees = [], filteredAttendees = [], currentSource = Some Googlesheets,
            pollingInterval = Some 5000, config_type = Googlesheets,
            config_pollInterval = (\<lambda>t. if t = Supabase then 0 else 5000) \<rparr>"
  by (simp add: switch_begin_def sample_manager_def setDataSource_def loadDataSource_def
        setupPolling_def Let_def)

text \<open>
  C2 as stated fails. The CSV adapter is polled; before the response arrives the user
  switches to Google Sheets and the new adapter's first load gives Ann; then the CSV
  response arrives and the roster is John Doe again, under the Google Sheets adapter.
\<close>

theorem late_poll_response_counterexample:
  "attendees (run [PollTick, SwitchBegin Googlesheets None True,
                   SwitchLoaded (Inr [sample_attendee (IdStr ''gsheet_ann_0'') ''Ann'' ''pending'' None])]
               (sample_manager [sample_attendee (IdStr ''csv_0'') ''John Doe'' ''pending'' None]))
     = [sample_attendee (IdStr ''gsheet_ann_0'') ''Ann'' ''pending'' None]
   \<and> attendees (run [PollTick, SwitchBegin Googlesheets None True,
                   SwitchLoaded (Inr [sample_attendee (IdStr ''gsheet_ann_0'') ''Ann'' ''pending'' None]),
                   PollSettled (Inr [sample_attendee (IdStr ''csv_0'') ''John Doe'' ''pending'' None])]
               (sample_manager [sample_attendee (IdStr ''csv_0'') ''John Doe'' ''pending'' None]))
     = [sample_attendee (IdStr ''csv_0'') ''John Doe'' ''pending'' None]
   \<and> currentSource (run [PollTick, SwitchBegin Googlesheets None True,
                   SwitchLoaded (Inr [sample_attendee (IdStr ''gsheet_ann_0'') ''Ann'' ''pending'' None]),
                   PollSettled (Inr [sample_attendee (IdStr ''csv_0'') ''John Doe'' ''pending'' None])]
               (sample_manager [sample_attendee (IdStr ''csv_0'') ''John Doe'' ''pending'' None]))
     = Some Googlesheets
   \<and> sample_attendee (IdStr ''csv_0'') ''John Doe'' ''pending'' None
       \<noteq> sample_attendee (IdStr ''gsheet_ann_0'') ''Ann'' ''pending'' None"
proof -
  have differ: "sample_attendee (IdStr ''csv_0'') ''John Doe'' ''pending'' None
       \<noteq> sample_attendee (IdStr ''gsheet_ann_0'') ''Ann'' ''pending'' None"
    by (simp add: sample_attendee_def)
  then show ?thesis
    by (simp add: switch_example switch_loaded_def poll_settled_def handleDataSourceUpdate_def)
qed

text \<open>The same late response, through the theorem.\<close>

theorem late_response_replaces_roster_witness:
  "attendees (poll_settled (Inr [sample_attendee (IdStr ''csv_0'') ''John Doe'' ''pending'' None])
      (switch_loaded (Inr [sample_attendee (IdStr ''gsheet_ann_0'') ''Ann'' ''pending'' None])
         \<lparr> attendees = [], filteredAttendees = [], currentSource = Some Googlesheets,
           pollingInterval = Some 5000, config_type = Googlesheets,
           config_pollInterval = (\<lambda>t. if t = Supabase then 0 else 5000) \<rparr>))
     = [sample_attendee (IdStr ''csv_0'') ''John Doe'' ''pending'' None]"
  using late_response_replaces_roster
      [where newType = Googlesheets and settings = None and confirmed = True
         and st = "sample_manager [sample_attendee (IdStr ''csv_0'') ''John Doe'' ''pending'' None]"
         and data = "[sample_attendee (IdStr ''csv_0'') ''John Doe'' ''pending'' None]"
         and loaded = "Inr [sample_attendee (IdStr ''gsheet_ann_0'') ''Ann'' ''pending'' None]",
       THEN mp, OF switch_example, THEN conjunct2, THEN conjunct2, THEN conjunct1]
  by simp

end
